theory Spec2Isabelle
  imports Main "HOL-Library.Sublist" "HOL-Library.AList" "HOL-Library.Char_ord"
    "HOL-Library.List_Lexorder"
begin

section \<open>Values, errors and tables shared by the AIBL clinical-data builders\<close>

text \<open>
  The module \<^verbatim>\<open>clinica/converters/aibl_to_bids/utils/clinical.py\<close> works on tables read
  from CSV files. A cell of such a table is a Python value: \<^verbatim>\<open>None\<close>, the float
  \<^verbatim>\<open>nan\<close>, a number or a string. Whole numbers stand for the numeric cells (the codes
  of the study are whole numbers; \<^verbatim>\<open>1.0 == 1\<close> holds in Python, so one constructor
  covers both readings of a numeric column).
\<close>

datatype pyval = PyNone | NaN | PyInt int | PyStr string

text \<open>
  The exceptions the module and the library calls it makes can raise. \<open>Unmodelled\<close>
  marks the runs this development does not follow (frames with duplicate column labels,
  row-wise \<^verbatim>\<open>apply\<close> on a frame without rows, a file whose first data line names
  index columns); nothing is claimed about them.
\<close>

datatype error =
    FileNotFoundError | KeyError | ValueError | IndexError | ParserError
  | AttributeError | TypeError | InvalidIndexError | UnboundLocalError
  | NotADirectoryError | Unmodelled

text \<open>Running a fallible step over a list stops at the first exception.\<close>

fun mapE :: "('a \<Rightarrow> error + 'b) \<Rightarrow> 'a list \<Rightarrow> error + 'b list" where
  "mapE f [] = Inr []"
| "mapE f (x # xs) =
     (case f x of
        Inl e \<Rightarrow> Inl e
      | Inr y \<Rightarrow> (case mapE f xs of Inl e \<Rightarrow> Inl e | Inr ys \<Rightarrow> Inr (y # ys)))"

fun foldE :: "('s \<Rightarrow> 'a \<Rightarrow> error + 's) \<Rightarrow> 'a list \<Rightarrow> 's \<Rightarrow> error + 's" where
  "foldE f [] s = Inr s"
| "foldE f (x # xs) s = (case f s x of Inl e \<Rightarrow> Inl e | Inr s' \<Rightarrow> foldE f xs s')"

text \<open>
  A parsed CSV file (a \<^verbatim>\<open>DataFrame\<close> with the default index): the column labels and
  the rows, a row giving the cell of each column. A column a row does not give reads
  as \<^verbatim>\<open>nan\<close>, as in a frame.
\<close>

type_synonym row = "(string \<times> pyval) list"

record table =
  cols :: "string list"
  body :: "row list"

definition cell :: "row \<Rightarrow> string \<Rightarrow> pyval" where
  "cell r c = (case map_of r c of None \<Rightarrow> NaN | Some v \<Rightarrow> v)"

text \<open>\<^verbatim>\<open>pandas.isna\<close> on a cell.\<close>

definition isna :: "pyval \<Rightarrow> bool" where
  "isna v = (v = PyNone \<or> v = NaN)"


text \<open>
  A row of a specification table, restricted to the columns the builders select:
  \<^verbatim>\<open>row["AIBL"]\<close> (the source column), \<^verbatim>\<open>row["AIBL location"]\<close>,
  \<^verbatim>\<open>row["BIDS CLINICA"]\<close> and, for scans only, \<^verbatim>\<open>row["Modalities related"]\<close>.
\<close>

record spec_row =
  aibl :: string
  aibl_location :: string
  bids_clinica :: string
  modalities_related :: string

section \<open>Diagnosis codes of the sessions table\<close>

text \<open>
  \<^verbatim>\<open>_map_diagnosis\<close>: the comparisons \<^verbatim>\<open>diagnosis == 1\<close>, \<^verbatim>\<open>== 2\<close>, \<^verbatim>\<open>== 3\<close> in this order,
  anything else falls to the last branch. A string never equals a number in Python.
\<close>

definition map_diagnosis :: "pyval \<Rightarrow> string" where
  "map_diagnosis diagnosis =
     (if diagnosis = PyInt 1 then ''CN''
      else if diagnosis = PyInt 2 then ''MCI''
      else if diagnosis = PyInt 3 then ''AD''
      else ''n/a'')"

text \<open>
  \<^verbatim>\<open>sessions.replace([-4, "-4", np.nan], None)\<close> on one cell: the number \<^verbatim>\<open>-4\<close>, the
  string \<^verbatim>\<open>"-4"\<close> and \<^verbatim>\<open>nan\<close> become \<^verbatim>\<open>None\<close>, every other cell is kept.
\<close>

definition replace_missing :: "pyval \<Rightarrow> pyval" where
  "replace_missing v =
     (if v = PyInt (- 4) \<or> v = PyStr ''-4'' \<or> v = NaN then PyNone else v)"

text \<open>
  Lines 235-236 of \<^verbatim>\<open>create_sessions_tsv_file\<close> on the cells of the diagnosis column:
  the replacement first, then \<^verbatim>\<open>_map_diagnosis\<close> on every cell.
\<close>

definition session_diagnosis :: "pyval \<Rightarrow> pyval" where
  "session_diagnosis v = PyStr (map_diagnosis (replace_missing v))"

section \<open>The repair of malformed flutemeta rows\<close>

text \<open>
  \<^verbatim>\<open>_handle_flutemeta_badline\<close>. \<^verbatim>\<open>line[-3]\<close> raises \<^verbatim>\<open>IndexError\<close> on a line of fewer
  than three fields; on a longer line both reads succeed. When the test fails the
  function falls off its end and returns \<^verbatim>\<open>None\<close>.
\<close>

definition handle_flutemeta_badline :: "string list \<Rightarrow> error + string list option" where
  "handle_flutemeta_badline line =
     (if length line < 3 then Inl IndexError
      else if line ! (length line - 3) = ''measured''
              \<and> line ! (length line - 2) = ''AUSTIN AC CT Brain  H19s''
      then Inr (Some (take (length line - 3) line @ [''-4'', last line]))
      else Inr None)"

text \<open>
  The \<^verbatim>\<open>on_bad_lines\<close> argument of \<^verbatim>\<open>pandas.read_csv\<close> as this module uses it: the
  string \<^verbatim>\<open>"error"\<close> or a callable.
\<close>

datatype on_bad_lines = OnBadError | OnBadCallable "string list \<Rightarrow> error + string list option"

text \<open>
  The contract of \<^verbatim>\<open>read_csv(on_bad_lines=...)\<close> on the data rows of a file, as the
  library documents it, for a reader that expects \<open>k\<close> fields in a row: a row with more
  than \<open>k\<close> fields is a bad line (a shorter row is filled up). With \<^verbatim>\<open>"error"\<close> the first
  bad line raises a parser error. With a callable (python engine), the callable is
  applied to the fields of the bad line: a returned list replaces the line, a returned
  \<^verbatim>\<open>None\<close> makes the reader ignore the line, and an exception of the callable leaves
  the reader. Cutting a replacement that is still too long is left to the typing of
  the columns.
\<close>

fun keep_rows :: "nat \<Rightarrow> on_bad_lines \<Rightarrow> string list list \<Rightarrow> error + string list list" where
  "keep_rows k obl [] = Inr []"
| "keep_rows k obl (l # ls) =
     (if length l > k then
        (case obl of
           OnBadError \<Rightarrow> Inl ParserError
         | OnBadCallable f \<Rightarrow>
             (case f l of
                Inl e \<Rightarrow> Inl e
              | Inr None \<Rightarrow> keep_rows k obl ls
              | Inr (Some l') \<Rightarrow>
                  (case keep_rows k obl ls of Inl e \<Rightarrow> Inl e | Inr rs \<Rightarrow> Inr (l' # rs))))
      else (case keep_rows k obl ls of Inl e \<Rightarrow> Inl e | Inr rs \<Rightarrow> Inr (l # rs)))"

text \<open>
  The number of fields the reader expects comes from the header and the first data
  line. A first data line with more fields than the \<open>n\<close> of the header is no bad line:
  the reader takes its leading fields for an implicit index and expects as many fields
  as this line has in every row. When the second data line has as many fields as the
  first data line and the header together, the reader takes the first data line for the
  names of index columns; such a file is not followed.
\<close>

definition read_rows :: "nat \<Rightarrow> on_bad_lines \<Rightarrow> string list list \<Rightarrow> error + string list list" where
  "read_rows n obl ls =
     (case ls of
        [] \<Rightarrow> Inr []
      | first # rest \<Rightarrow>
          (case rest of
             [] \<Rightarrow> keep_rows (max n (length first)) obl ls
           | second # _ \<Rightarrow>
               if length second = length first + n then Inl Unmodelled
               else keep_rows (max n (length first)) obl ls))"

text \<open>Python's \<^verbatim>\<open>sub in s\<close> on strings.\<close>

fun py_in :: "string \<Rightarrow> string \<Rightarrow> bool" where
  "py_in sub [] = (sub = [])"
| "py_in sub (c # cs) = (prefix sub (c # cs) \<or> py_in sub cs)"

text \<open>
  The choice of \<^verbatim>\<open>on_bad_lines\<close> in \<^verbatim>\<open>_create_scans_dict\<close> from the location pattern of
  the mapping row.
\<close>

definition scans_on_bad_lines :: "string \<Rightarrow> on_bad_lines" where
  "scans_on_bad_lines location =
     (if py_in ''flutemeta'' location then OnBadCallable handle_flutemeta_badline
      else OnBadError)"

section \<open>Reading a clinical data file\<close>

text \<open>
  A CSV file as the reader sees it before it types the columns: the fields of the
  header and of each data line.
\<close>

record csv_file =
  header :: "string list"
  data_lines :: "string list list"

text \<open>
  The clinical data directory answers \<^verbatim>\<open>next(clinical_dir.glob(pattern))\<close>: the first
  file matching the pattern, or nothing (\<^verbatim>\<open>StopIteration\<close>).
\<close>

type_synonym clinical_dir = "string \<Rightarrow> csv_file option"

text \<open>
  How the reader types the columns of the lines it kept (and which leading fields it
  takes for an implicit index) is the library's business and stays a parameter:
  \<open>typed hdr lines\<close> is the frame built from them.
\<close>

type_synonym typing = "string list \<Rightarrow> string list list \<Rightarrow> table"

definition load_metadata_from_pattern ::
  "typing \<Rightarrow> clinical_dir \<Rightarrow> string \<Rightarrow> on_bad_lines \<Rightarrow> error + table" where
  "load_metadata_from_pattern typed clinical_dir pattern obl =
     (case clinical_dir pattern of
        None \<Rightarrow> Inl FileNotFoundError
      | Some f \<Rightarrow>
          (case read_rows (length (header f)) obl (data_lines f) of
             Inl e \<Rightarrow> Inl e
           | Inr ls \<Rightarrow> Inr (typed (header f) ls)))"

section \<open>Dates\<close>

definition is_digit :: "char \<Rightarrow> bool" where
  "is_digit c = (c \<in> set ''0123456789'')"

definition digit_val :: "char \<Rightarrow> nat" where
  "digit_val c = of_char c - 48"

definition digits_val :: "string \<Rightarrow> nat" where
  "digits_val s = foldl (\<lambda>a c. 10 * a + digit_val c) 0 s"

text \<open>Python's \<^verbatim>\<open>s.split(c)\<close> for a one-character separator.\<close>

fun split_on :: "char \<Rightarrow> string \<Rightarrow> string list" where
  "split_on c [] = [[]]"
| "split_on c (x # xs) =
     (if x = c then [] # split_on c xs
      else (case split_on c xs of [] \<Rightarrow> [[x]] | p # ps \<Rightarrow> (x # p) # ps))"

text \<open>
  The directives of \<^verbatim>\<open>datetime.strptime\<close> the module uses. \<^verbatim>\<open>%m\<close> reads
  \<^verbatim>\<open>1[0-2]|0[1-9]|[1-9]\<close>, \<^verbatim>\<open>%d\<close> reads \<^verbatim>\<open>3[01]|[12]\d|0[1-9]|[1-9]| [1-9]\<close> and
  \<^verbatim>\<open>%Y\<close> reads exactly four digits; the whole string must be consumed. Between the
  separators of the format this is: one non-zero digit, or two digits with a value from
  1 to the bound, or (day only) a space and a non-zero digit.
\<close>

definition parse_field :: "nat \<Rightarrow> bool \<Rightarrow> string \<Rightarrow> nat option" where
  "parse_field hi sp s =
     (case s of
        [a] \<Rightarrow> if is_digit a \<and> a \<noteq> CHR ''0'' then Some (digit_val a) else None
      | [a, b] \<Rightarrow>
          if is_digit a \<and> is_digit b \<and> 1 \<le> digits_val [a, b] \<and> digits_val [a, b] \<le> hi
          then Some (digits_val [a, b])
          else if sp \<and> a = CHR '' '' \<and> is_digit b \<and> b \<noteq> CHR ''0''
          then Some (digit_val b) else None
      | _ \<Rightarrow> None)"

definition parse_Y :: "string \<Rightarrow> nat option" where
  "parse_Y s = (if length s = 4 \<and> list_all is_digit s then Some (digits_val s) else None)"

definition is_leap :: "nat \<Rightarrow> bool" where
  "is_leap y = (y mod 4 = 0 \<and> (y mod 100 \<noteq> 0 \<or> y mod 400 = 0))"

definition days_in_month :: "nat \<Rightarrow> nat \<Rightarrow> nat" where
  "days_in_month y m =
     (if m = 2 then (if is_leap y then 29 else 28)
      else if m = 4 \<or> m = 6 \<or> m = 9 \<or> m = 11 then 30 else 31)"

text \<open>
  \<^verbatim>\<open>datetime.strptime(s, "%m/%d/%Y")\<close>: year, month and day, or \<^verbatim>\<open>ValueError\<close> when the
  string does not match the format or names no date (the year 0, the 30th of
  February).
\<close>

definition strptime_mdY :: "string \<Rightarrow> error + (nat \<times> nat \<times> nat)" where
  "strptime_mdY s =
     (case split_on CHR ''/'' s of
        [m, d, y] \<Rightarrow>
          (case (parse_field 12 False m, parse_field 31 True d, parse_Y y) of
             (Some m', Some d', Some y') \<Rightarrow>
               if 1 \<le> y' \<and> d' \<le> days_in_month y' m' then Inr (y', m', d')
               else Inl ValueError
           | _ \<Rightarrow> Inl ValueError)
      | _ \<Rightarrow> Inl ValueError)"




definition digit_char :: "nat \<Rightarrow> char" where
  "digit_char n = char_of (48 + n mod 10)"

definition pad2 :: "nat \<Rightarrow> string" where
  "pad2 n = [digit_char (n div 10), digit_char n]"

definition pad4 :: "nat \<Rightarrow> string" where
  "pad4 n = [digit_char (n div 1000), digit_char (n div 100), digit_char (n div 10), digit_char n]"

text \<open>
  \<^verbatim>\<open>_format_time\<close>: \<^verbatim>\<open>strptime\<close> with \<^verbatim>\<open>"%m/%d/%Y"\<close>, then \<^verbatim>\<open>strftime\<close> with
  \<^verbatim>\<open>"%Y-%m-%dT%H:%M:%S"\<close>; the time of a parsed date is midnight. The year is written
  with four digits.
\<close>

definition format_time :: "pyval \<Rightarrow> error + string" where
  "format_time time =
     (case time of
        PyStr s \<Rightarrow>
          (case strptime_mdY s of
             Inl e \<Rightarrow> Inl e
           | Inr (y, m, d) \<Rightarrow> Inr (pad4 y @ ''-'' @ pad2 m @ ''-'' @ pad2 d @ ''T00:00:00''))
      | _ \<Rightarrow> Inl TypeError)"

section \<open>The scans dictionary\<close>

text \<open>
  \<^verbatim>\<open>scans_dict[subject][session][modality group][field]\<close>: Python dictionaries, kept
  as association lists in insertion order. The modality groups are
  \<^verbatim>\<open>"T1/DWI/fMRI/FMAP"\<close> and the values of the tracers \<^verbatim>\<open>PIB\<close>, \<^verbatim>\<open>AV45\<close> and \<^verbatim>\<open>FMM\<close>
  (\<^verbatim>\<open>Tracer\<close> is a string enumeration, so a member is its value as a key).
\<close>

type_synonym fields = "(string \<times> pyval) list"
type_synonym modalities = "(string \<times> fields) list"
type_synonym sessions_dict = "(string \<times> modalities) list"
type_synonym scans_dict = "(string \<times> sessions_dict) list"

definition empty_modalities :: modalities where
  "empty_modalities =
     [(''T1/DWI/fMRI/FMAP'', []), (''11CPIB'', []), (''18FAV45'', []), (''18FFMM'', [])]"

text \<open>
  \<^verbatim>\<open>_init_scans_dict\<close>. \<open>bids_ids\<close> are the names of the directories
  \<^verbatim>\<open>bids_path.rglob("./sub-AIBL*")\<close> enumerates and \<open>ses_list b\<close> the names of the
  directories \<^verbatim>\<open>(bids_path / b).rglob("ses-M*")\<close> enumerates. Assigning to a key that is
  already there replaces its value and keeps its place.
\<close>

definition init_scans_dict :: "string list \<Rightarrow> (string \<Rightarrow> string list) \<Rightarrow> scans_dict" where
  "init_scans_dict bids_ids ses_list =
     foldl (\<lambda>d bids_id.
              AList.update bids_id
                (foldl (\<lambda>sd session. AList.update session empty_modalities sd) [] (ses_list bids_id))
                d)
       [] bids_ids"

text \<open>
  Python's \<^verbatim>\<open>int(s)\<close> on the text of an identifier: an optional sign and decimal
  digits; \<^verbatim>\<open>ValueError\<close> otherwise. (Surrounding blanks and underscores between
  digits, which \<^verbatim>\<open>int\<close> also accepts, do not occur in identifiers and are not
  covered.)
\<close>

definition py_int :: "string \<Rightarrow> error + int" where
  "py_int s =
     (case s of
        [] \<Rightarrow> Inl ValueError
      | c # cs \<Rightarrow>
          (if (c = CHR ''-'' \<or> c = CHR ''+'') \<and> cs \<noteq> [] \<and> list_all is_digit cs
           then Inr (if c = CHR ''-'' then - int (digits_val cs) else int (digits_val cs))
           else if list_all is_digit (c # cs) then Inr (int (digits_val (c # cs)))
           else Inl ValueError))"

text \<open>\<^verbatim>\<open>Series.item()\<close>: the only element, \<^verbatim>\<open>ValueError\<close> unless there is exactly one.\<close>

definition item :: "pyval list \<Rightarrow> error + pyval" where
  "item xs = (case xs of [x] \<Rightarrow> Inr x | _ \<Rightarrow> Inl ValueError)"

text \<open>
  \<^verbatim>\<open>file["session_id"] = file["VISCODE"].apply(viscode_to_session)\<close>.
  \<^verbatim>\<open>viscode_to_session\<close> lives outside this module and is a parameter.
\<close>

definition add_session_id :: "(pyval \<Rightarrow> error + string) \<Rightarrow> table \<Rightarrow> error + table" where
  "add_session_id viscode_to_session file =
     (if ''VISCODE'' \<notin> set (cols file) then Inl KeyError
      else
        (case mapE (\<lambda>r. case viscode_to_session (cell r ''VISCODE'') of
                            Inl e \<Rightarrow> Inl e
                          | Inr s \<Rightarrow> Inr (AList.update ''session_id'' (PyStr s) r))
                (body file) of
           Inl e \<Rightarrow> Inl e
         | Inr rs \<Rightarrow>
             Inr \<lparr>cols = (if ''session_id'' \<in> set (cols file) then cols file
                           else cols file @ [''session_id'']),
                  body = rs\<rparr>))"

text \<open>The rows of the file for an original-study identifier and a session label.\<close>

definition matching_rows :: "table \<Rightarrow> int \<Rightarrow> string \<Rightarrow> row list" where
  "matching_rows file rid session =
     filter (\<lambda>r. cell r ''RID'' = PyInt rid \<and> cell r ''session_id'' = PyStr session) (body file)"

text \<open>
  The \<^verbatim>\<open>try\<close> block of \<^verbatim>\<open>_create_scans_dict\<close> and its \<^verbatim>\<open>except ValueError\<close>: the value
  for one mapping row, subject and session. Python evaluates \<^verbatim>\<open>file["RID"]\<close>, then
  \<^verbatim>\<open>int(original_id)\<close>, then selects the rows, the column \<^verbatim>\<open>row[study]\<close> and calls
  \<^verbatim>\<open>item()\<close>. A \<^verbatim>\<open>KeyError\<close> or \<^verbatim>\<open>TypeError\<close> is not caught and leaves the function.
\<close>

definition scan_value :: "table \<Rightarrow> spec_row \<Rightarrow> string \<Rightarrow> string \<Rightarrow> error + pyval" where
  "scan_value file row original_id session =
     (if ''RID'' \<notin> set (cols file) then Inl KeyError
      else
        (case py_int original_id of
           Inl e \<Rightarrow> Inr (PyStr ''n/a'')
         | Inr rid \<Rightarrow>
             (if aibl row \<notin> set (cols file) then Inl KeyError
              else
                (case item (map (\<lambda>r. cell r (aibl row)) (matching_rows file rid session)) of
                   Inl e \<Rightarrow> Inr (PyStr ''n/a'')
                 | Inr value \<Rightarrow>
                     (if value = PyStr ''-4'' then Inr (PyStr ''n/a'')
                      else if bids_clinica row = ''acq_time'' then
                        (case format_time value of
                           Inl e \<Rightarrow> if e = ValueError then Inr (PyStr ''n/a'') else Inl e
                         | Inr t \<Rightarrow> Inr (PyStr t))
                      else Inr value)))))"

text \<open>
  Lines 444-447: the value is stored only when the field is not in the modality's
  dictionary yet or holds \<^verbatim>\<open>"n/a"\<close>.
\<close>

definition write_slot :: "string \<Rightarrow> pyval \<Rightarrow> fields \<Rightarrow> fields" where
  "write_slot key value modality =
     (if map_of modality key = None \<or> map_of modality key = Some (PyStr ''n/a'')
      then AList.update key value modality
      else modality)"

text \<open>
  The body of the loop over the sessions of a subject.
  \<^verbatim>\<open>scans_dict[bids_id][session][row["Modalities related"]]\<close> raises \<^verbatim>\<open>KeyError\<close> for a
  modality group the dictionary does not have.
\<close>

definition session_step ::
  "table \<Rightarrow> spec_row \<Rightarrow> string \<Rightarrow> string \<times> modalities \<Rightarrow> error + (string \<times> modalities)" where
  "session_step file row original_id sm =
     (case scan_value file row original_id (fst sm) of
        Inl e \<Rightarrow> Inl e
      | Inr value \<Rightarrow>
          (case map_of (snd sm) (modalities_related row) of
             None \<Rightarrow> Inl KeyError
           | Some modality \<Rightarrow>
               Inr (fst sm,
                    AList.update (modalities_related row)
                      (write_slot (bids_clinica row) value modality) (snd sm))))"

text \<open>
  The body of the loop over the subjects; \<^verbatim>\<open>to_original_study_id\<close> of the identifier
  class lives outside this module and is a parameter.
\<close>

definition subject_step ::
  "(string \<Rightarrow> error + string) \<Rightarrow> table \<Rightarrow> spec_row \<Rightarrow> string \<times> sessions_dict
     \<Rightarrow> error + (string \<times> sessions_dict)" where
  "subject_step to_original_study_id file row bs =
     (case to_original_study_id (fst bs) of
        Inl e \<Rightarrow> Inl e
      | Inr original_id \<Rightarrow>
          (case mapE (session_step file row original_id) (snd bs) of
             Inl e \<Rightarrow> Inl e
           | Inr ss \<Rightarrow> Inr (fst bs, ss)))"

text \<open>The body of the loop over the mapping rows of \<^verbatim>\<open>scans.tsv\<close>.\<close>

definition scans_row_step ::
  "typing \<Rightarrow> clinical_dir \<Rightarrow> (pyval \<Rightarrow> error + string) \<Rightarrow> (string \<Rightarrow> error + string)
     \<Rightarrow> scans_dict \<Rightarrow> spec_row \<Rightarrow> error + scans_dict" where
  "scans_row_step typed clinical_dir viscode_to_session to_original_study_id scans row =
     (case load_metadata_from_pattern typed clinical_dir (aibl_location row)
             (scans_on_bad_lines (aibl_location row)) of
        Inl e \<Rightarrow> Inl e
      | Inr file0 \<Rightarrow>
          (case add_session_id viscode_to_session file0 of
             Inl e \<Rightarrow> Inl e
           | Inr file \<Rightarrow> mapE (subject_step to_original_study_id file row) scans))"

definition create_scans_dict ::
  "typing \<Rightarrow> clinical_dir \<Rightarrow> (pyval \<Rightarrow> error + string) \<Rightarrow> (string \<Rightarrow> error + string)
     \<Rightarrow> spec_row list \<Rightarrow> string list \<Rightarrow> (string \<Rightarrow> string list) \<Rightarrow> error + scans_dict" where
  "create_scans_dict typed clinical_dir viscode_to_session to_original_study_id scans_specs
       bids_ids ses_list =
     foldE (scans_row_step typed clinical_dir viscode_to_session to_original_study_id)
       scans_specs (init_scans_dict bids_ids ses_list)"

text \<open>The value a field of a modality group holds for a subject and a session.\<close>

definition slot :: "scans_dict \<Rightarrow> string \<Rightarrow> string \<Rightarrow> string \<Rightarrow> string \<Rightarrow> pyval option" where
  "slot d bids_id session modality key =
     (case map_of d bids_id of
        None \<Rightarrow> None
      | Some ss \<Rightarrow>
          (case map_of ss session of
             None \<Rightarrow> None
           | Some ms \<Rightarrow> (case map_of ms modality of None \<Rightarrow> None | Some fs \<Rightarrow> map_of fs key)))"


section \<open>The participants table\<close>

fun show_nat :: "nat \<Rightarrow> string" where
  "show_nat n = (if n < 10 then [digit_char n] else show_nat (n div 10) @ [digit_char n])"

declare show_nat.simps [simp del]

definition show_int :: "int \<Rightarrow> string" where
  "show_int n = (if n < 0 then CHR ''-'' # show_nat (nat (- n)) else show_nat (nat n))"

text \<open>\<^verbatim>\<open>Series.astype(str)\<close> on a cell: Python's \<^verbatim>\<open>str\<close> of the value.\<close>

definition astype_str :: "pyval \<Rightarrow> pyval" where
  "astype_str v =
     PyStr (case v of PyNone \<Rightarrow> ''None'' | NaN \<Rightarrow> ''nan'' | PyInt n \<Rightarrow> show_int n | PyStr s \<Rightarrow> s)"

text \<open>
  \<^verbatim>\<open>participant_df[name] = series\<close>. The series of a file has the positions of its rows
  as index. A frame without rows takes the index of the series (columns it already has
  are filled with \<^verbatim>\<open>nan\<close>); otherwise the series is aligned on the frame's index:
  positions the series lacks read \<^verbatim>\<open>nan\<close>, positions the frame lacks are dropped.
  Assigning to a column that exists replaces it in place.
\<close>

definition assign_column :: "string \<Rightarrow> pyval list \<Rightarrow> table \<Rightarrow> table" where
  "assign_column name vals df =
     \<lparr>cols = (if name \<in> set (cols df) then cols df else cols df @ [name]),
      body =
        (if body df = [] then
           map (\<lambda>v. AList.update name v (map (\<lambda>c. (c, NaN)) (cols df))) vals
         else
           map (\<lambda>rv. AList.update name (snd rv) (fst rv))
             (zip (body df) (vals @ replicate (length (body df) - length vals) NaN)))\<rparr>"

text \<open>
  The state of the loop of lines 50-55: \<^verbatim>\<open>prev_location\<close>, \<^verbatim>\<open>file_to_read\<close> (unbound
  before the first load), the frame, and the patterns handed to
  \<^verbatim>\<open>_load_metadata_from_pattern\<close> so far, one entry for each file read and parsed.
\<close>

record assembly =
  prev_location :: string
  file_to_read :: "table option"
  participant_df :: table
  reads :: "string list"

definition participants_row_step ::
  "typing \<Rightarrow> clinical_dir \<Rightarrow> assembly \<Rightarrow> spec_row \<Rightarrow> error + assembly" where
  "participants_row_step typed clinical_dir st row =
     (case (if aibl_location row \<noteq> prev_location st then
              (case load_metadata_from_pattern typed clinical_dir (aibl_location row) OnBadError of
                 Inl e \<Rightarrow> Inl e
               | Inr f \<Rightarrow>
                   Inr (st\<lparr>file_to_read := Some f, prev_location := aibl_location row,
                           reads := reads st @ [aibl_location row]\<rparr>))
            else Inr st) of
        Inl e \<Rightarrow> Inl e
      | Inr st' \<Rightarrow>
          (case file_to_read st' of
             None \<Rightarrow> Inl UnboundLocalError
           | Some f \<Rightarrow>
               (if aibl row \<notin> set (cols f) then Inl KeyError
                else
                  Inr (st'\<lparr>participant_df :=
                              assign_column (bids_clinica row)
                                (map (\<lambda>r. astype_str (cell r (aibl row))) (body f))
                                (participant_df st')\<rparr>))))"

definition assemble_participants ::
  "typing \<Rightarrow> clinical_dir \<Rightarrow> spec_row list \<Rightarrow> error + assembly" where
  "assemble_participants typed clinical_dir specifications =
     foldE (participants_row_step typed clinical_dir) specifications
       \<lparr>prev_location = [], file_to_read = None,
        participant_df = \<lparr>cols = [], body = []\<rparr>, reads = []\<rparr>"

text \<open>\<^verbatim>\<open>df[c] = df[c].<f>\<close>: a function applied to the cells of a column.\<close>

definition apply_column :: "(pyval \<Rightarrow> pyval) \<Rightarrow> string \<Rightarrow> table \<Rightarrow> table" where
  "apply_column f c df = df\<lparr>body := map (\<lambda>r. AList.update c (f (cell r c)) r) (body df)\<rparr>"

text \<open>
  Lines 58-64: \<^verbatim>\<open>insert(0, "participant_id", ...)\<close> with the identifiers computed from
  the column \<^verbatim>\<open>alternative_id_1\<close>. \<^verbatim>\<open>from_original_study_id\<close> of the identifier class
  lives outside this module and is a parameter. \<^verbatim>\<open>insert\<close> raises \<^verbatim>\<open>ValueError\<close> when
  the column exists.
\<close>

definition insert_participant_id :: "(pyval \<Rightarrow> error + string) \<Rightarrow> table \<Rightarrow> error + table" where
  "insert_participant_id from_original_study_id df =
     (if ''alternative_id_1'' \<notin> set (cols df) then Inl KeyError
      else
        (case mapE (\<lambda>r. from_original_study_id (cell r ''alternative_id_1'')) (body df) of
           Inl e \<Rightarrow> Inl e
         | Inr ids \<Rightarrow>
             (if ''participant_id'' \<in> set (cols df) then Inl ValueError
              else
                Inr \<lparr>cols = ''participant_id'' # cols df,
                     body = map (\<lambda>ir. (''participant_id'', PyStr (fst ir)) # snd ir)
                              (zip ids (body df))\<rparr>)))"

text \<open>\<^verbatim>\<open>df.drop(labels=c, axis=1)\<close> for a column that exists.\<close>

definition drop_column :: "string \<Rightarrow> table \<Rightarrow> table" where
  "drop_column c df =
     \<lparr>cols = filter (\<lambda>x. x \<noteq> c) (cols df), body = map (AList.delete c) (body df)\<rparr>"

text \<open>
  \<^verbatim>\<open>str.extract(r"/(\d{4}).*")\<close> on a cell: the four digits after the first slash that
  four digits follow; \<^verbatim>\<open>nan\<close> when there is none, or when the cell is not a string.
\<close>

fun extract_year :: "string \<Rightarrow> string option" where
  "extract_year [] = None"
| "extract_year (c # cs) =
     (if c = CHR ''/'' \<and> 4 \<le> length cs \<and> list_all is_digit (take 4 cs) then Some (take 4 cs)
      else extract_year cs)"

definition extract_year_cell :: "pyval \<Rightarrow> pyval" where
  "extract_year_cell v =
     (case v of
        PyStr s \<Rightarrow> (case extract_year s of None \<Rightarrow> NaN | Some y \<Rightarrow> PyStr y)
      | _ \<Rightarrow> NaN)"

text \<open>\<^verbatim>\<open>.map({"1": "M", "2": "F"})\<close> on a cell: a value that is no key gives \<^verbatim>\<open>nan\<close>.\<close>

definition map_sex :: "pyval \<Rightarrow> pyval" where
  "map_sex v =
     (if v = PyStr ''1'' then PyStr ''M'' else if v = PyStr ''2'' then PyStr ''F'' else NaN)"

text \<open>
  \<^verbatim>\<open>fillna("n/a")\<close> and \<^verbatim>\<open>replace("-4", "n/a")\<close> on a cell, and a function on every
  cell of every column of a frame.
\<close>

definition fillna_cell :: "pyval \<Rightarrow> pyval" where
  "fillna_cell v = (if isna v then PyStr ''n/a'' else v)"

definition replace_cell :: "pyval \<Rightarrow> pyval" where
  "replace_cell v = (if v = PyStr ''-4'' then PyStr ''n/a'' else v)"

definition map_cells :: "(pyval \<Rightarrow> pyval) \<Rightarrow> string list \<Rightarrow> row \<Rightarrow> row" where
  "map_cells f cs r = map (\<lambda>c. (c, f (cell r c))) cs"

definition map_table :: "(pyval \<Rightarrow> pyval) \<Rightarrow> table \<Rightarrow> table" where
  "map_table f df = df\<lparr>body := map (map_cells f (cols df)) (body df)\<rparr>"

text \<open>Lines 57-75 on the assembled frame.\<close>

definition normalize_participants ::
  "(pyval \<Rightarrow> error + string) \<Rightarrow> table \<Rightarrow> error + table" where
  "normalize_participants from_original_study_id df0 =
     (case insert_participant_id from_original_study_id df0 of
        Inl e \<Rightarrow> Inl e
      | Inr df1 \<Rightarrow>
          (let df2 = drop_column ''alternative_id_1'' df1 in
           if ''date_of_birth'' \<notin> set (cols df2) then Inl KeyError
           else
             (let df3 = apply_column extract_year_cell ''date_of_birth'' df2 in
              if ''sex'' \<notin> set (cols df3) then Inl KeyError
              else
                Inr (map_table replace_cell
                       (map_table fillna_cell (apply_column map_sex ''sex'' df3))))))"

text \<open>
  What lines 57-75 do to one row of the assembled frame, given the identifier computed
  for it: the cells of the columns \<open>cs\<close> of the result.
\<close>

definition norm_row :: "string list \<Rightarrow> string \<Rightarrow> row \<Rightarrow> row" where
  "norm_row cs i r =
     (let r2 = AList.delete ''alternative_id_1'' ((''participant_id'', PyStr i) # r);
          r3 = AList.update ''date_of_birth'' (extract_year_cell (cell r2 ''date_of_birth'')) r2;
          r4 = AList.update ''sex'' (map_sex (cell r3 ''sex'')) r3
      in map_cells replace_cell cs (map_cells fillna_cell cs r4))"

text \<open>
  Lines 78-89. \<^verbatim>\<open>bids_path.glob("sub-*")\<close> gives the entries of the BIDS folder whose
  name starts with \<^verbatim>\<open>sub-\<close>, in the order the folder enumerates them.
\<close>

definition glob_sub :: "string list \<Rightarrow> string list" where
  "glob_sub entries = filter (prefix ''sub-'') entries"

text \<open>
  The loop over \<^verbatim>\<open>subjects_to_keep\<close> on the frame indexed by \<^verbatim>\<open>participant_id\<close>: a
  subject that is no label of the index gets a warning and a new last row, \<^verbatim>\<open>"n/a"\<close>
  in every column but its own identifier.
\<close>

definition warning_for :: "string \<Rightarrow> string" where
  "warning_for subject = ''No clinical data was found for participant '' @ subject @ ''.''"

definition missing_row :: "string list \<Rightarrow> string \<Rightarrow> pyval \<times> row" where
  "missing_row cs subject =
     (PyStr subject,
      AList.update ''participant_id'' (PyStr subject) (map (\<lambda>c. (c, PyStr ''n/a'')) cs))"

fun add_missing_subjects ::
  "string list \<Rightarrow> string list \<Rightarrow> (pyval \<times> row) list \<Rightarrow> string list
     \<Rightarrow> (pyval \<times> row) list \<times> string list" where
  "add_missing_subjects cs [] rows warnings = (rows, warnings)"
| "add_missing_subjects cs (subject # rest) rows warnings =
     (if PyStr subject \<notin> set (map fst rows) then
        add_missing_subjects cs rest (rows @ [missing_row cs subject])
          (warnings @ [warning_for subject])
      else add_missing_subjects cs rest rows warnings)"

text \<open>
  \<^verbatim>\<open>df.loc[labels]\<close>: for each label in turn, the rows of the frame with this label;
  \<^verbatim>\<open>KeyError\<close> when a label is not in the index.
\<close>

definition loc_labels ::
  "string list \<Rightarrow> (pyval \<times> row) list \<Rightarrow> error + (pyval \<times> row) list" where
  "loc_labels labels rows =
     (if list_all (\<lambda>l. PyStr l \<in> set (map fst rows)) labels
      then Inr (concat (map (\<lambda>l. filter (\<lambda>ir. fst ir = PyStr l) rows) labels))
      else Inl KeyError)"

definition reconcile_with_bids ::
  "string list \<Rightarrow> table \<Rightarrow> error + (table \<times> string list)" where
  "reconcile_with_bids subjects_to_keep df =
     (if ''participant_id'' \<notin> set (cols df) then Inl KeyError
      else
        (let indexed = map (\<lambda>r. (cell r ''participant_id'', r)) (body df);
             added = add_missing_subjects (cols df) subjects_to_keep indexed []
         in case loc_labels subjects_to_keep (fst added) of
              Inl e \<Rightarrow> Inl e
            | Inr kept \<Rightarrow> Inr (\<lparr>cols = cols df, body = map snd kept\<rparr>, snd added)))"

text \<open>
  \<^verbatim>\<open>create_participants_tsv_file\<close> on the loaded specification rows: the frame written
  to \<^verbatim>\<open>participants.tsv\<close>, the warnings printed and the files read.
\<close>

definition create_participants_tsv_file ::
  "typing \<Rightarrow> clinical_dir \<Rightarrow> spec_row list \<Rightarrow> (pyval \<Rightarrow> error + string) \<Rightarrow> string list
     \<Rightarrow> bool \<Rightarrow> error + (table \<times> string list \<times> string list)" where
  "create_participants_tsv_file typed clinical_dir specifications from_original_study_id
       bids_entries delete_non_bids_info =
     (case assemble_participants typed clinical_dir specifications of
        Inl e \<Rightarrow> Inl e
      | Inr st \<Rightarrow>
          (case normalize_participants from_original_study_id (participant_df st) of
             Inl e \<Rightarrow> Inl e
           | Inr df \<Rightarrow>
               (if delete_non_bids_info then
                  (case reconcile_with_bids (glob_sub bids_entries) df of
                     Inl e \<Rightarrow> Inl e
                   | Inr dw \<Rightarrow> Inr (fst dw, snd dw, reads st))
                else Inr (df, [], reads st))))"

section \<open>The sessions tables\<close>


















section \<open>Writing the scans tables\<close>

text \<open>
  An entry of a session folder: its name, whether it is a directory, and the names of
  the entries \<^verbatim>\<open>iterdir()\<close> gives for it.
\<close>

record dir_entry =
  ename :: string
  is_dir :: bool
  children :: "string list"

definition supported_modalities :: "string list" where
  "supported_modalities = [''anat'', ''dwi'', ''func'', ''pet'']"

text \<open>
  The rows appended for the files of one modality folder. The group of a file is
  \<^verbatim>\<open>"T1/DWI/fMRI/FMAP"\<close> in \<^verbatim>\<open>anat\<close>, \<^verbatim>\<open>dwi\<close> and \<^verbatim>\<open>func\<close> and the tracer of the file name
  otherwise (\<^verbatim>\<open>get_pet_tracer_from_filename\<close>, outside this module, a parameter);
  \<^verbatim>\<open>KeyError\<close> for a group the dictionary of the session lacks, \<^verbatim>\<open>ValueError\<close> from
  \<^verbatim>\<open>insert\<close> when the group has a field called \<^verbatim>\<open>filename\<close>. \<^verbatim>\<open>pd.concat\<close> of the rows
  takes the union of the columns.
\<close>

definition append_scan_row ::
  "(string \<Rightarrow> error + string) \<Rightarrow> modalities \<Rightarrow> string \<Rightarrow> table \<Rightarrow> string \<Rightarrow> error + table" where
  "append_scan_row get_pet_tracer_from_filename session_dict modality_name scans_df file_name =
     (case (if modality_name \<in> set [''anat'', ''dwi'', ''func''] then Inr ''T1/DWI/fMRI/FMAP''
            else get_pet_tracer_from_filename file_name) of
        Inl e \<Rightarrow> Inl e
      | Inr f_type \<Rightarrow>
          (case map_of session_dict f_type of
             None \<Rightarrow> Inl KeyError
           | Some fs \<Rightarrow>
               (if ''filename'' \<in> set (map fst fs) then Inl ValueError
                else
                  Inr \<lparr>cols = cols scans_df
                              @ filter (\<lambda>c. c \<notin> set (cols scans_df)) (''filename'' # map fst fs),
                       body = body scans_df
                              @ [(''filename'', PyStr (modality_name @ '' / '' @ file_name)) # fs]\<rparr>)))"

text \<open>
  The body of the loop over the modality folders of a session: \<^verbatim>\<open>iterdir()\<close> raises on
  an entry that is no directory; after the files of the folder, the frame is filled and
  written over the TSV file of the session.
\<close>

definition modality_step ::
  "(string \<Rightarrow> error + string) \<Rightarrow> modalities \<Rightarrow> table \<times> table option \<Rightarrow> dir_entry
     \<Rightarrow> error + (table \<times> table option)" where
  "modality_step get_pet_tracer_from_filename session_dict st modality =
     (if \<not> is_dir modality then Inl NotADirectoryError
      else
        (case foldE (append_scan_row get_pet_tracer_from_filename session_dict (ename modality))
                (children modality) (fst st) of
           Inl e \<Rightarrow> Inl e
         | Inr scans_df \<Rightarrow>
             Inr (map_table fillna_cell scans_df, Some (map_table fillna_cell scans_df))))"

text \<open>
  The body of the loop over the sessions of a subject: the TSV file of the session is
  unlinked, then the modality folders among the entries of the session folder are
  processed. The result is the TSV file of the session afterwards, if any.
\<close>

definition write_session_scans ::
  "(string \<Rightarrow> error + string) \<Rightarrow> dir_entry list \<Rightarrow> modalities \<Rightarrow> error + table option" where
  "write_session_scans get_pet_tracer_from_filename entries session_dict =
     (case foldE (modality_step get_pet_tracer_from_filename session_dict)
             (filter (\<lambda>e. ename e \<in> set supported_modalities) entries)
             (\<lparr>cols = [], body = []\<rparr>, None) of
        Inl e \<Rightarrow> Inl e
      | Inr st \<Rightarrow> Inr (snd st))"

text \<open>
  \<^verbatim>\<open>_write_scans_tsv\<close>. The store gives, for a subject and a session, the content of
  \<^verbatim>\<open><subject>/<session>/<subject>_<session>_scans.tsv\<close> if the file exists; \<open>listing\<close>
  gives the entries of the folder of the session.
\<close>

type_synonym scans_store = "string \<times> string \<Rightarrow> table option"

definition write_subject_scans ::
  "(string \<Rightarrow> error + string) \<Rightarrow> (string \<Rightarrow> string \<Rightarrow> dir_entry list) \<Rightarrow> string
     \<Rightarrow> scans_store \<Rightarrow> string \<times> modalities \<Rightarrow> error + scans_store" where
  "write_subject_scans get_pet_tracer_from_filename listing subject store sm =
     (case write_session_scans get_pet_tracer_from_filename (listing subject (fst sm)) (snd sm) of
        Inl e \<Rightarrow> Inl e
      | Inr tsv \<Rightarrow> Inr (store((subject, fst sm) := tsv)))"

definition write_scans_tsv ::
  "(string \<Rightarrow> error + string) \<Rightarrow> (string \<Rightarrow> string \<Rightarrow> dir_entry list) \<Rightarrow> scans_dict
     \<Rightarrow> scans_store \<Rightarrow> error + scans_store" where
  "write_scans_tsv get_pet_tracer_from_filename listing scans store =
     foldE (\<lambda>st bs. foldE (write_subject_scans get_pet_tracer_from_filename listing (fst bs))
                      (snd bs) st)
       scans store"

section \<open>Example data\<close>

text \<open>
  A reader typing for the examples: the fields of a row after those of the implicit
  index (none when the first data line is as long as the header) go to the columns of
  the header; an empty field is \<^verbatim>\<open>nan\<close>, a field of one of the columns \<open>nums\<close> that is
  a whole number is a number, every other field is a string.
\<close>

definition typed_num :: "string list \<Rightarrow> typing" where
  "typed_num nums hdr ls =
     \<lparr>cols = hdr,
      body = map (\<lambda>l. map (\<lambda>cf. (fst cf,
                                  if snd cf = [] then NaN
                                  else if fst cf \<in> set nums then
                                    (case py_int (snd cf) of
                                       Inl e \<Rightarrow> PyStr (snd cf)
                                     | Inr n \<Rightarrow> PyInt n)
                                  else PyStr (snd cf)))
                         (zip hdr (drop (case ls of [] \<Rightarrow> 0
                                         | first # _ \<Rightarrow> length first - length hdr) l))) ls\<rparr>"

definition example_typed :: typing where
  "example_typed = typed_num [''RID'', ''DXCURREN'']"

definition example_clinical_dir :: clinical_dir where
  "example_clinical_dir pattern =
     (if pattern = ''aibl_mrimeta_*.csv'' then
        Some \<lparr>header = [''RID'', ''VISCODE'', ''EXAMDATE''],
              data_lines = [[''12'', ''bl'', ''01/02/2010''], [''15'', ''bl'', ''07/08/2012'']]\<rparr>
      else if pattern = ''aibl_mri3meta_*.csv'' then
        Some \<lparr>header = [''RID'', ''VISCODE'', ''EXAMDATE''],
              data_lines = [[''12'', ''bl'', ''03/04/2011''], [''13'', ''bl'', ''05/06/2012''],
                            [''13'', ''bl'', ''05/07/2012'']]\<rparr>
      else if pattern = ''aibl_flutemeta_*.csv'' then
        Some \<lparr>header = [''RID'', ''VISCODE'', ''EXAMDATE'', ''A'', ''B'', ''C''],
              data_lines =
                [[''12'', ''bl'', ''04/05/2010'', ''1'', ''-4'', ''0''],
                 [''13'', ''bl'', ''04/06/2010'', ''1'', ''measured'',
                  ''AUSTIN AC CT Brain  H19s'', ''0''],
                 [''15'', ''bl'', ''04/07/2010'', ''1'', ''a'', ''b'', ''0'']]\<rparr>
      else if pattern = ''aibl_ptdemog_*.csv'' then
        Some \<lparr>header = [''RID'', ''VISCODE'', ''PTGENDER'', ''PTDOB''],
              data_lines = [[''12'', ''bl'', ''1'', ''/1950''], [''14'', ''bl'', ''-4'', ''-4'']]\<rparr>
      else if pattern = ''aibl_pdxconv_*.csv'' then
        Some \<lparr>header = [''RID'', ''VISCODE'', ''DXCURREN''],
              data_lines = [[''12'', ''bl'', ''1''], [''12'', ''m18'', ''4'']]\<rparr>
      else if pattern = ''aibl_neurobat_*.csv'' then
        Some \<lparr>header = [''RID'', ''VISCODE'', ''EXAMDATE''],
              data_lines = [[''12'', ''bl'', ''06/15/2010''], [''12'', ''m18'', ''-4'']]\<rparr>
      else None)"

definition example_viscode_to_session :: "pyval \<Rightarrow> error + string" where
  "example_viscode_to_session v =
     (if v = PyStr ''bl'' then Inr ''ses-M000''
      else if v = PyStr ''m18'' then Inr ''ses-M018''
      else Inl ValueError)"

definition example_to_original_study_id :: "string \<Rightarrow> error + string" where
  "example_to_original_study_id bids_id =
     (if prefix ''sub-AIBL'' bids_id then Inr (drop 8 bids_id) else Inl ValueError)"

definition example_from_original_study_id :: "pyval \<Rightarrow> error + string" where
  "example_from_original_study_id v =
     (case v of PyStr s \<Rightarrow> Inr (''sub-AIBL'' @ s) | _ \<Rightarrow> Inl ValueError)"

definition acq_time_row :: "string \<Rightarrow> spec_row" where
  "acq_time_row location =
     \<lparr>aibl = ''EXAMDATE'', aibl_location = location, bids_clinica = ''acq_time'',
      modalities_related = ''T1/DWI/fMRI/FMAP''\<rparr>"

definition example_scans_specs :: "spec_row list" where
  "example_scans_specs = [acq_time_row ''aibl_mrimeta_*.csv'', acq_time_row ''aibl_mri3meta_*.csv'']"

definition example_bids_ids :: "string list" where
  "example_bids_ids = [''sub-AIBL12'', ''sub-AIBL13'', ''sub-AIBL15'']"

definition example_ses_list :: "string \<Rightarrow> string list" where
  "example_ses_list bids_id = [''ses-M000'']"

definition example_scans_result :: scans_dict where
  "example_scans_result =
     [(''sub-AIBL12'',
       [(''ses-M000'',
         [(''T1/DWI/fMRI/FMAP'', [(''acq_time'', PyStr ''2010-01-02T00:00:00'')]),
          (''11CPIB'', []), (''18FAV45'', []), (''18FFMM'', [])])]),
      (''sub-AIBL13'',
       [(''ses-M000'',
         [(''T1/DWI/fMRI/FMAP'', [(''acq_time'', PyStr ''n/a'')]),
          (''11CPIB'', []), (''18FAV45'', []), (''18FFMM'', [])])]),
      (''sub-AIBL15'',
       [(''ses-M000'',
         [(''T1/DWI/fMRI/FMAP'', [(''acq_time'', PyStr ''2012-07-08T00:00:00'')]),
          (''11CPIB'', []), (''18FAV45'', []), (''18FFMM'', [])])])]"

definition example_mri3meta :: table where
  "example_mri3meta =
     \<lparr>cols = [''RID'', ''VISCODE'', ''EXAMDATE'', ''session_id''],
      body =
        [[(''RID'', PyInt 12), (''VISCODE'', PyStr ''bl''), (''EXAMDATE'', PyStr ''03/04/2011''),
          (''session_id'', PyStr ''ses-M000'')],
         [(''RID'', PyInt 13), (''VISCODE'', PyStr ''bl''), (''EXAMDATE'', PyStr ''05/06/2012''),
          (''session_id'', PyStr ''ses-M000'')],
         [(''RID'', PyInt 13), (''VISCODE'', PyStr ''bl''), (''EXAMDATE'', PyStr ''05/07/2012''),
          (''session_id'', PyStr ''ses-M000'')]]\<rparr>"

definition clinical_row :: "string \<Rightarrow> string \<Rightarrow> string \<Rightarrow> spec_row" where
  "clinical_row source_column location bids_name =
     \<lparr>aibl = source_column, aibl_location = location, bids_clinica = bids_name,
      modalities_related = []\<rparr>"

definition example_participant_specs :: "spec_row list" where
  "example_participant_specs =
     [clinical_row ''RID'' ''aibl_ptdemog_*.csv'' ''alternative_id_1'',
      clinical_row ''EXAMDATE'' ''aibl_neurobat_*.csv'' ''first_exam'',
      clinical_row ''PTGENDER'' ''aibl_ptdemog_*.csv'' ''sex'',
      clinical_row ''PTDOB'' ''aibl_ptdemog_*.csv'' ''date_of_birth'']"

definition example_bids_entries :: "string list" where
  "example_bids_entries = [''participants.tsv'', ''sub-AIBL13'', ''sub-AIBL12'', ''README'']"


section \<open>Auxiliary facts on the participants table\<close>

lemma fst_missing_row [simp]: "fst (missing_row cs s) = PyStr s"
  by (simp add: missing_row_def)

lemma cell_update: "cell (AList.update k v r) c = (if c = k then v else cell r c)"
  by (simp add: cell_def update_conv')

lemma cell_missing_row_pid [simp]: "cell (snd (missing_row cs s)) ''participant_id'' = PyStr s"
  by (simp add: missing_row_def cell_update)

lemma add_missing_subjects_labels:
  "set (map fst (fst (add_missing_subjects cs subjects rows w)))
     = set (map fst rows) \<union> PyStr ` set subjects"
  by (induction cs subjects rows w rule: add_missing_subjects.induct) auto

lemma add_missing_subjects_distinct:
  "distinct subjects \<Longrightarrow>
   add_missing_subjects cs subjects rows w
     = (rows @ map (missing_row cs) (filter (\<lambda>s. PyStr s \<notin> set (map fst rows)) subjects),
        w @ map warning_for (filter (\<lambda>s. PyStr s \<notin> set (map fst rows)) subjects))"
proof (induction cs subjects rows w rule: add_missing_subjects.induct)
  case (1 cs rows warnings)
  then show ?case by simp
next
  case (2 cs subject rest rows warnings)
  have eq: "filter (\<lambda>s. PyStr s \<notin> set (map fst (rows @ [missing_row cs subject]))) rest
          = filter (\<lambda>s. PyStr s \<notin> set (map fst rows)) rest"
    using "2.prems" by (intro filter_cong) auto
  show ?case
  proof (cases "PyStr subject \<notin> set (map fst rows)")
    case True
    with "2.IH"(1) "2.prems" eq show ?thesis by simp
  next
    case False
    with "2.IH"(2) "2.prems" show ?thesis by simp
  qed
qed

lemma add_missing_subjects_inv:
  "\<forall>ir \<in> set rows. cell (snd ir) ''participant_id'' = fst ir \<Longrightarrow>
   \<forall>ir \<in> set (fst (add_missing_subjects cs subjects rows w)). cell (snd ir) ''participant_id'' = fst ir"
  by (induction cs subjects rows w rule: add_missing_subjects.induct) auto

lemma loc_labels_ok:
  "PyStr ` set labels \<subseteq> set (map fst rows) \<Longrightarrow>
   loc_labels labels rows = Inr (concat (map (\<lambda>l. filter (\<lambda>ir. fst ir = PyStr l) rows) labels))"
  by (auto simp: loc_labels_def list_all_iff)

lemma set_fst_concat_filter:
  "PyStr ` set labels \<subseteq> set (map fst rows) \<Longrightarrow>
   set (map fst (concat (map (\<lambda>l. filter (\<lambda>ir. fst ir = PyStr l) rows) labels))) = PyStr ` set labels"
  by (auto simp: image_iff) force+

lemma remdups_adj_concat_replicate:
  assumes "distinct xs" "inj_on f (set xs)" "\<forall>x \<in> set xs. 0 < n x"
  shows "remdups_adj (concat (map (\<lambda>x. replicate (n x) (f x)) xs)) = map f xs"
  using assms
proof (induction xs)
  case Nil
  then show ?case by simp
next
  case (Cons x xs)
  let ?rest = "concat (map (\<lambda>x. replicate (n x) (f x)) xs)"
  have IH: "remdups_adj ?rest = map f xs" using Cons by simp
  have nx: "0 < n x" using Cons.prems by simp
  have "?rest = [] \<or> last (replicate (n x) (f x)) \<noteq> hd ?rest"
  proof (cases "?rest = []")
    case True then show ?thesis by simp
  next
    case False
    then have "hd ?rest \<in> set ?rest" by (rule hd_in_set)
    moreover have "set ?rest \<subseteq> f ` set xs" by auto
    ultimately obtain y where "y \<in> set xs" "hd ?rest = f y" by blast
    moreover have "f y \<noteq> f x" using Cons.prems(1,2) calculation(1) by (auto simp: inj_on_def)
    ultimately show ?thesis using nx by simp
  qed
  then have "remdups_adj (replicate (n x) (f x) @ ?rest)
      = remdups_adj (replicate (n x) (f x)) @ remdups_adj ?rest"
    by (intro remdups_adj_append') auto
  with IH nx show ?case by (simp add: remdups_adj_replicate)
qed

lemma map_fst_filter_label:
  "map fst (filter (\<lambda>ir. fst ir = l) rows) = replicate (length (filter (\<lambda>ir. fst ir = l) rows)) l"
  by (induction rows) auto


lemma reconcile_with_bids_ok:
  assumes pid: "''participant_id'' \<in> set (cols df)"
  shows "\<exists>kept. reconcile_with_bids subjects df
           = Inr (\<lparr>cols = cols df, body = map snd kept\<rparr>,
                  snd (add_missing_subjects (cols df) subjects
                         (map (\<lambda>r. (cell r ''participant_id'', r)) (body df)) []))
         \<and> kept = concat (map (\<lambda>l. filter (\<lambda>ir. fst ir = PyStr l)
                     (fst (add_missing_subjects (cols df) subjects
                         (map (\<lambda>r. (cell r ''participant_id'', r)) (body df)) []))) subjects)
         \<and> (\<forall>ir \<in> set kept. cell (snd ir) ''participant_id'' = fst ir)
         \<and> set (map fst kept) = PyStr ` set subjects"
proof -
  let ?indexed = "map (\<lambda>r. (cell r ''participant_id'', r)) (body df)"
  let ?added = "add_missing_subjects (cols df) subjects ?indexed []"
  let ?kept = "concat (map (\<lambda>l. filter (\<lambda>ir. fst ir = PyStr l) (fst ?added)) subjects)"
  have sub: "PyStr ` set subjects \<subseteq> set (map fst (fst ?added))"
    by (simp add: add_missing_subjects_labels del: set_map)
  have inv: "\<forall>ir \<in> set (fst ?added). cell (snd ir) ''participant_id'' = fst ir"
    by (rule add_missing_subjects_inv) auto
  have "reconcile_with_bids subjects df = Inr (\<lparr>cols = cols df, body = map snd ?kept\<rparr>, snd ?added)"
    using pid loc_labels_ok[OF sub] by (simp add: reconcile_with_bids_def Let_def)
  moreover have "\<forall>ir \<in> set ?kept. cell (snd ir) ''participant_id'' = fst ir"
    using inv by auto
  moreover have "set (map fst ?kept) = PyStr ` set subjects"
    by (rule set_fst_concat_filter[OF sub])
  ultimately show ?thesis by blast
qed


lemma filter_eq_distinct:
  "distinct xs \<Longrightarrow> filter (\<lambda>y. y = x) xs = (if x \<in> set xs then [x] else [])"
  by (induction xs) auto

lemma filter_label_missing:
  assumes "distinct M"
  shows "filter (\<lambda>ir. fst ir = PyStr s) (map (missing_row cs) M)
         = (if s \<in> set M then [missing_row cs s] else [])"
proof -
  have "filter (\<lambda>ir. fst ir = PyStr s) (map (missing_row cs) M)
        = map (missing_row cs) (filter (\<lambda>y. y = s) M)"
    by (simp add: filter_map comp_def)
  with filter_eq_distinct[OF assms, of s] show ?thesis by simp
qed

lemma filter_label_indexed:
  "map snd (filter (\<lambda>ir. fst ir = l) (map (\<lambda>r. (cell r ''participant_id'', r)) rows))
   = filter (\<lambda>r. cell r ''participant_id'' = l) rows"
  by (induction rows) auto

lemma reconcile_with_bids_rows:
  assumes pid: "''participant_id'' \<in> set (cols df)" and d: "distinct subjects"
    and r: "reconcile_with_bids subjects df = Inr (out, warnings)"
  shows "cols out = cols df"
    and "body out = concat (map (\<lambda>s.
            if PyStr s \<in> set (map (\<lambda>r. cell r ''participant_id'') (body df))
            then filter (\<lambda>r. cell r ''participant_id'' = PyStr s) (body df)
            else [snd (missing_row (cols df) s)]) subjects)"
    and "warnings = map warning_for
            (filter (\<lambda>s. PyStr s \<notin> set (map (\<lambda>r. cell r ''participant_id'') (body df))) subjects)"
    and "remdups_adj (map (\<lambda>r. cell r ''participant_id'') (body out)) = map PyStr subjects"
    and "set (map (\<lambda>r. cell r ''participant_id'') (body out)) = PyStr ` set subjects"
proof -
  let ?indexed = "map (\<lambda>r. (cell r ''participant_id'', r)) (body df)"
  let ?ids = "set (map (\<lambda>r. cell r ''participant_id'') (body df))"
  let ?M = "filter (\<lambda>s. PyStr s \<notin> ?ids) subjects"
  let ?rows = "?indexed @ map (missing_row (cols df)) ?M"
  have lab: "set (map fst ?indexed) = ?ids" by (simp add: comp_def)
  have added: "add_missing_subjects (cols df) subjects ?indexed []
      = (?rows, map warning_for ?M)"
    using add_missing_subjects_distinct[OF d, of "cols df" ?indexed "[]"] lab
    by (simp add: comp_def)
  from reconcile_with_bids_ok[OF pid, of subjects] obtain kept where
    k: "reconcile_with_bids subjects df
           = Inr (\<lparr>cols = cols df, body = map snd kept\<rparr>,
                  snd (add_missing_subjects (cols df) subjects ?indexed []))"
       "kept = concat (map (\<lambda>l. filter (\<lambda>ir. fst ir = PyStr l)
                     (fst (add_missing_subjects (cols df) subjects ?indexed []))) subjects)"
       "\<forall>ir \<in> set kept. cell (snd ir) ''participant_id'' = fst ir"
       "set (map fst kept) = PyStr ` set subjects"
    by blast
  from k(1) r have out: "out = \<lparr>cols = cols df, body = map snd kept\<rparr>"
    and w: "warnings = map warning_for ?M"
    using added by simp_all
  show "cols out = cols df" using out by simp
  show "warnings = map warning_for ?M" by (rule w)
  have kept: "kept = concat (map (\<lambda>l. filter (\<lambda>ir. fst ir = PyStr l) ?rows) subjects)"
    using k(2) added by simp
  have dM: "distinct ?M" using d by simp
  have each: "map snd (filter (\<lambda>ir. fst ir = PyStr s) ?rows)
        = (if PyStr s \<in> ?ids then filter (\<lambda>r. cell r ''participant_id'' = PyStr s) (body df)
           else [snd (missing_row (cols df) s)])" if "s \<in> set subjects" for s
  proof (cases "PyStr s \<in> ?ids")
    case True
    then have "s \<notin> set ?M" by simp
    with True show ?thesis
      by (simp add: filter_label_missing[OF dM] filter_label_indexed del: set_map set_filter)
  next
    case False
    then have m: "s \<in> set ?M" using that by simp
    from False have "filter (\<lambda>r. cell r ''participant_id'' = PyStr s) (body df) = []"
      by (force simp: filter_empty_conv image_iff)
    with False m show ?thesis
      by (simp add: filter_label_missing[OF dM] filter_label_indexed del: set_map set_filter)
  qed
  have "body out = concat (map (\<lambda>s. map snd (filter (\<lambda>ir. fst ir = PyStr s) ?rows)) subjects)"
    using out kept by (simp add: map_concat comp_def)
  also have "\<dots> = concat (map (\<lambda>s.
            if PyStr s \<in> ?ids then filter (\<lambda>r. cell r ''participant_id'' = PyStr s) (body df)
            else [snd (missing_row (cols df) s)]) subjects)"
    using each by (intro arg_cong[where f = concat] map_cong) auto
  finally show "body out = concat (map (\<lambda>s.
            if PyStr s \<in> ?ids then filter (\<lambda>r. cell r ''participant_id'' = PyStr s) (body df)
            else [snd (missing_row (cols df) s)]) subjects)" .
  have ids: "map (\<lambda>r. cell r ''participant_id'') (body out) = map fst kept"
    using out k(3) by (simp add: comp_def)
  show "set (map (\<lambda>r. cell r ''participant_id'') (body out)) = PyStr ` set subjects"
    using ids k(4) by simp
  have "map fst kept = concat (map (\<lambda>s. replicate (length (filter (\<lambda>ir. fst ir = PyStr s) ?rows))
           (PyStr s)) subjects)"
    unfolding kept by (simp only: map_concat map_map comp_def map_fst_filter_label)
  moreover have "\<forall>s \<in> set subjects. 0 < length (filter (\<lambda>ir. fst ir = PyStr s) ?rows)"
  proof
    fix s assume "s \<in> set subjects"
    then have "PyStr s \<in> set (map fst ?rows)"
      by (cases "PyStr s \<in> ?ids") (auto simp: image_iff)
    then show "0 < length (filter (\<lambda>ir. fst ir = PyStr s) ?rows)"
      by (auto simp: filter_empty_conv)
  qed
  ultimately show "remdups_adj (map (\<lambda>r. cell r ''participant_id'') (body out)) = map PyStr subjects"
    using remdups_adj_concat_replicate[OF d, of PyStr
        "\<lambda>s. length (filter (\<lambda>ir. fst ir = PyStr s) ?rows)"] ids
    by (simp add: inj_on_def)
qed

lemma normalize_participants_cols:
  "normalize_participants from_orig df0 = Inr df \<Longrightarrow>
   cols df = ''participant_id'' # filter (\<lambda>x. x \<noteq> ''alternative_id_1'') (cols df0)"
  by (auto simp: normalize_participants_def insert_participant_id_def drop_column_def
      apply_column_def map_table_def Let_def split: sum.splits if_splits)

lemma cell_Cons: "cell ((k, v) # r) c = (if c = k then v else cell r c)"
  by (simp add: cell_def)

lemma cell_delete: "cell (AList.delete k r) c = (if c = k then NaN else cell r c)"
  by (simp add: cell_def delete_conv')

lemma map_of_map_const: "map_of (map (\<lambda>c. (c, g c)) cs) c = (if c \<in> set cs then Some (g c) else None)"
  by (induction cs) auto

lemma cell_map_cells: "cell (map_cells f cs r) c = (if c \<in> set cs then f (cell r c) else NaN)"
  by (simp add: cell_def map_cells_def map_of_map_const)

lemma cell_missing_row:
  "c \<in> set cs \<Longrightarrow>
   cell (snd (missing_row cs s)) c = (if c = ''participant_id'' then PyStr s else PyStr ''n/a'')"
  by (simp add: missing_row_def cell_update) (simp add: cell_def map_of_map_const)

lemma replace_fillna_ok:
  "\<not> isna (replace_cell (fillna_cell v)) \<and> replace_cell (fillna_cell v) \<noteq> PyStr ''-4''"
  by (simp add: replace_cell_def fillna_cell_def isna_def)

lemma replace_fillna_eq:
  "replace_cell (fillna_cell v) = (if isna v \<or> v = PyStr ''-4'' then PyStr ''n/a'' else v)"
  by (auto simp: replace_cell_def fillna_cell_def isna_def)

lemma mapE_length: "mapE f xs = Inr ys \<Longrightarrow> length ys = length xs"
  by (induction xs arbitrary: ys) (auto split: sum.splits)

lemma mapE_nth: "mapE f xs = Inr ys \<Longrightarrow> i < length xs \<Longrightarrow> f (xs ! i) = Inr (ys ! i)"
proof (induction xs arbitrary: ys i)
  case Nil then show ?case by simp
next
  case (Cons x xs)
  then show ?case by (cases i) (auto split: sum.splits)
qed

lemma normalize_participants_body:
  assumes "normalize_participants from_orig df0 = Inr df"
  shows "\<exists>ids. mapE (\<lambda>r. from_orig (cell r ''alternative_id_1'')) (body df0) = Inr ids
           \<and> body df = map (\<lambda>ir. norm_row (cols df) (fst ir) (snd ir)) (zip ids (body df0))
           \<and> ''date_of_birth'' \<in> set (cols df) \<and> ''sex'' \<in> set (cols df)
           \<and> cols df = ''participant_id'' # filter (\<lambda>x. x \<noteq> ''alternative_id_1'') (cols df0)"
  using assms
  by (auto simp: normalize_participants_def insert_participant_id_def drop_column_def
      apply_column_def map_table_def Let_def norm_row_def comp_def
      split: sum.splits if_splits)

lemma cell_norm_row:
  assumes "c \<in> set cs"
  shows "cell (norm_row cs i r) c =
     replace_cell (fillna_cell
       (if c = ''sex'' then map_sex (cell r ''sex'')
        else if c = ''date_of_birth'' then extract_year_cell (cell r ''date_of_birth'')
        else if c = ''alternative_id_1'' then NaN
        else if c = ''participant_id'' then PyStr i
        else cell r c))"
  using assms
  by (simp add: norm_row_def Let_def cell_map_cells cell_update cell_delete cell_Cons)

lemma show_nat_nonempty: "show_nat n \<noteq> []"
  by (subst show_nat.simps) simp

lemma astype_str_nonempty: "v \<noteq> PyStr [] \<Longrightarrow> astype_str v \<noteq> PyStr []"
  by (cases v) (auto simp: astype_str_def show_int_def show_nat_nonempty)

lemma cell_const_row: "cell (map (\<lambda>c. (c, NaN)) cs) c = NaN"
  by (simp add: cell_def map_of_map_const)

lemma assign_column_nonempty:
  assumes "\<forall>r \<in> set (body df). \<forall>c. cell r c \<noteq> PyStr []" and "\<forall>v \<in> set vals. v \<noteq> PyStr []"
  shows "\<forall>r \<in> set (body (assign_column name vals df)). \<forall>c. cell r c \<noteq> PyStr []"
proof (cases "body df = []")
  case True
  then show ?thesis using assms(2)
    by (auto simp: assign_column_def cell_update cell_const_row)
next
  case False
  have "\<forall>rv \<in> set (zip (body df) (vals @ replicate (length (body df) - length vals) NaN)).
          (\<forall>c. cell (fst rv) c \<noteq> PyStr []) \<and> snd rv \<noteq> PyStr []"
  proof
    fix rv assume a: "rv \<in> set (zip (body df) (vals @ replicate (length (body df) - length vals) NaN))"
    obtain r v where rv: "rv = (r, v)" by (cases rv)
    from a rv have "r \<in> set (body df)" by (blast dest: set_zip_leftD)
    moreover from a rv have "v \<in> set (vals @ replicate (length (body df) - length vals) NaN)"
      by (blast dest: set_zip_rightD)
    ultimately show "(\<forall>c. cell (fst rv) c \<noteq> PyStr []) \<and> snd rv \<noteq> PyStr []"
      using assms rv by auto
  qed
  with False show ?thesis
    by (auto simp: assign_column_def cell_update)
qed

lemma load_metadata_from_pattern_typed:
  assumes "load_metadata_from_pattern typed dir p obl = Inr f"
  shows "\<exists>hdr ls. f = typed hdr ls"
proof (cases "dir p")
  case None
  with assms show ?thesis by (simp add: load_metadata_from_pattern_def)
next
  case (Some y)
  with assms show ?thesis
    by (cases "read_rows (length (header y)) obl (data_lines y)")
       (auto simp: load_metadata_from_pattern_def)
qed

lemma participants_row_step_nonempty:
  assumes t: "\<forall>hdr ls. \<forall>r \<in> set (body (typed hdr ls)). \<forall>c. cell r c \<noteq> PyStr []"
    and s: "participants_row_step typed dir st row = Inr st'"
    and i: "\<forall>r \<in> set (body (participant_df st)). \<forall>c. cell r c \<noteq> PyStr []"
    and f: "\<forall>f. file_to_read st = Some f \<longrightarrow> (\<forall>r \<in> set (body f). \<forall>c. cell r c \<noteq> PyStr [])"
  shows "(\<forall>r \<in> set (body (participant_df st')). \<forall>c. cell r c \<noteq> PyStr [])
       \<and> (\<forall>f. file_to_read st' = Some f \<longrightarrow> (\<forall>r \<in> set (body f). \<forall>c. cell r c \<noteq> PyStr []))"
proof -
  from s have "\<exists>f. file_to_read st' = Some f
    \<and> participant_df st' = assign_column (bids_clinica row)
               (map (\<lambda>r. astype_str (cell r (aibl row))) (body f)) (participant_df st)
    \<and> (file_to_read st = Some f \<or> (\<exists>p obl. load_metadata_from_pattern typed dir p obl = Inr f))"
    by (cases "aibl_location row \<noteq> prev_location st")
       (auto simp: participants_row_step_def split: sum.splits option.splits if_splits)
  then obtain f where f': "file_to_read st' = Some f"
    and pd: "participant_df st' = assign_column (bids_clinica row)
               (map (\<lambda>r. astype_str (cell r (aibl row))) (body f)) (participant_df st)"
    and ff: "file_to_read st = Some f \<or> (\<exists>p obl. load_metadata_from_pattern typed dir p obl = Inr f)"
    by blast
  from ff have fne: "\<forall>r \<in> set (body f). \<forall>c. cell r c \<noteq> PyStr []"
  proof
    assume "file_to_read st = Some f" with f show ?thesis by blast
  next
    assume "\<exists>p obl. load_metadata_from_pattern typed dir p obl = Inr f"
    then obtain hdr ls where "f = typed hdr ls"
      using load_metadata_from_pattern_typed by blast
    with t show ?thesis by blast
  qed
  then have "\<forall>v \<in> set (map (\<lambda>r. astype_str (cell r (aibl row))) (body f)). v \<noteq> PyStr []"
    by (auto simp: astype_str_nonempty)
  from assign_column_nonempty[OF i this] pd f' fne show ?thesis by simp
qed

lemma participants_rows_nonempty:
  assumes t: "\<forall>hdr ls. \<forall>r \<in> set (body (typed hdr ls)). \<forall>c. cell r c \<noteq> PyStr []"
  shows "foldE (participants_row_step typed dir) specs st = Inr st' \<Longrightarrow>
     \<forall>r \<in> set (body (participant_df st)). \<forall>c. cell r c \<noteq> PyStr [] \<Longrightarrow>
     \<forall>f. file_to_read st = Some f \<longrightarrow> (\<forall>r \<in> set (body f). \<forall>c. cell r c \<noteq> PyStr []) \<Longrightarrow>
     \<forall>r \<in> set (body (participant_df st')). \<forall>c. cell r c \<noteq> PyStr []"
proof (induction specs arbitrary: st)
  case Nil
  then show ?case by simp
next
  case (Cons row specs)
  from Cons.prems(1) obtain st1 where s1: "participants_row_step typed dir st row = Inr st1"
    and s2: "foldE (participants_row_step typed dir) specs st1 = Inr st'"
    by (auto split: sum.splits)
  from participants_row_step_nonempty[OF t s1 Cons.prems(2,3)] Cons.IH[OF s2]
  show ?case by blast
qed

lemma assemble_participants_nonempty:
  assumes "\<forall>hdr ls. \<forall>r \<in> set (body (typed hdr ls)). \<forall>c. cell r c \<noteq> PyStr []"
    and "assemble_participants typed dir specs = Inr st"
  shows "\<forall>r \<in> set (body (participant_df st)). \<forall>c. cell r c \<noteq> PyStr []"
  using participants_rows_nonempty[OF assms(1), of dir specs _ st] assms(2)
  by (simp add: assemble_participants_def)

lemma extract_year_length: "extract_year s = Some y \<Longrightarrow> length y = 4"
  by (induction s) (auto split: if_splits)

lemma normalize_participants_nonempty:
  assumes n: "normalize_participants from_orig df0 = Inr df"
    and i: "\<forall>r \<in> set (body df0). \<forall>c. cell r c \<noteq> PyStr []"
    and o: "\<forall>v s. from_orig v = Inr s \<longrightarrow> s \<noteq> []"
  shows "\<forall>r \<in> set (body df). \<forall>c \<in> set (cols df). cell r c \<noteq> PyStr []"
proof (intro ballI)
  fix r c assume r: "r \<in> set (body df)" and c: "c \<in> set (cols df)"
  from normalize_participants_body[OF n] obtain ids where
    ids: "mapE (\<lambda>r. from_orig (cell r ''alternative_id_1'')) (body df0) = Inr ids"
    and b: "body df = map (\<lambda>ir. norm_row (cols df) (fst ir) (snd ir)) (zip ids (body df0))"
    by blast
  from r b obtain i r0 where ir: "(i, r0) \<in> set (zip ids (body df0))" "r = norm_row (cols df) i r0"
    by auto
  from ir(1) have r0: "r0 \<in> set (body df0)" and "i \<in> set ids"
    by (auto dest: set_zip_leftD set_zip_rightD)
  then obtain k where "k < length ids" "ids ! k = i" by (auto simp: in_set_conv_nth)
  with mapE_nth[OF ids, of k] mapE_length[OF ids] o have ine: "i \<noteq> []" by auto
  have "extract_year_cell v \<noteq> PyStr []" for v
    by (cases v) (auto simp: extract_year_cell_def split: option.splits dest: extract_year_length)
  then show "cell r c \<noteq> PyStr []"
    using ir(2) c i r0 ine
    by (auto simp: cell_norm_row replace_fillna_eq map_sex_def)
qed

lemma add_missing_subjects_set:
  "set (fst (add_missing_subjects cs subjects rows w)) \<subseteq> set rows \<union> missing_row cs ` set subjects"
  by (induction cs subjects rows w rule: add_missing_subjects.induct) auto

lemma reconcile_with_bids_set:
  assumes "reconcile_with_bids subjects df = Inr (out, warnings)"
  shows "cols out = cols df \<and> set (body out) \<subseteq> set (body df) \<union> (\<lambda>s. snd (missing_row (cols df) s)) ` set subjects"
proof -
  from assms have pid: "''participant_id'' \<in> set (cols df)"
    by (auto simp: reconcile_with_bids_def split: if_splits)
  from reconcile_with_bids_ok[OF pid, of subjects] assms obtain kept where
    k: "out = \<lparr>cols = cols df, body = map snd kept\<rparr>"
       "kept = concat (map (\<lambda>l. filter (\<lambda>ir. fst ir = PyStr l)
                     (fst (add_missing_subjects (cols df) subjects
                         (map (\<lambda>r. (cell r ''participant_id'', r)) (body df)) []))) subjects)"
    by auto
  have "set kept \<subseteq> set (fst (add_missing_subjects (cols df) subjects
                         (map (\<lambda>r. (cell r ''participant_id'', r)) (body df)) []))"
    unfolding k(2) by auto
  with add_missing_subjects_set[of "cols df" subjects "map (\<lambda>r. (cell r ''participant_id'', r)) (body df)" "[]"]
  have "set kept \<subseteq> set (map (\<lambda>r. (cell r ''participant_id'', r)) (body df)) \<union> missing_row (cols df) ` set subjects"
    by blast
  then show ?thesis using k(1) by auto
qed

lemma normalize_participants_cells:
  assumes n: "normalize_participants from_orig df0 = Inr df"
  shows "\<forall>r \<in> set (body df). \<forall>c \<in> set (cols df). \<not> isna (cell r c) \<and> cell r c \<noteq> PyStr ''-4''"
  using normalize_participants_body[OF n]
  by (auto simp: cell_norm_row replace_fillna_ok dest!: set_zip_rightD)

lemma glob_sub_names: "s \<in> set (glob_sub entries) \<Longrightarrow> s \<noteq> [] \<and> s \<noteq> ''-4''"
  by (auto simp: glob_sub_def)


lemma norm_sex: "replace_cell (fillna_cell (map_sex v))
   = (if v = PyStr ''1'' then PyStr ''M'' else if v = PyStr ''2'' then PyStr ''F'' else PyStr ''n/a'')"
  by (simp add: replace_cell_def fillna_cell_def map_sex_def isna_def)

lemma cell_norm_row_sex:
  "''sex'' \<in> set cs \<Longrightarrow>
   cell (norm_row cs i r) ''sex''
     = (if cell r ''sex'' = PyStr ''1'' then PyStr ''M''
        else if cell r ''sex'' = PyStr ''2'' then PyStr ''F'' else PyStr ''n/a'')"
  by (simp add: cell_norm_row norm_sex)

lemma cell_norm_row_other:
  "c \<in> set cs \<Longrightarrow> c \<noteq> ''sex'' \<Longrightarrow> c \<noteq> ''date_of_birth'' \<Longrightarrow> c \<noteq> ''alternative_id_1'' \<Longrightarrow>
   c \<noteq> ''participant_id'' \<Longrightarrow>
   cell (norm_row cs i r) c
     = (if isna (cell r c) \<or> cell r c = PyStr ''-4'' then PyStr ''n/a'' else cell r c)"
  by (simp add: cell_norm_row replace_fillna_eq)

lemma normalize_participants_rows:
  assumes n: "normalize_participants from_orig df0 = Inr df"
  shows "length (body df) = length (body df0)
     \<and> (\<forall>i < length (body df).
          cell (body df ! i) ''sex''
            = (if cell (body df0 ! i) ''sex'' = PyStr ''1'' then PyStr ''M''
               else if cell (body df0 ! i) ''sex'' = PyStr ''2'' then PyStr ''F''
               else PyStr ''n/a'')
        \<and> (\<forall>c \<in> set (cols df). c \<noteq> ''participant_id'' \<longrightarrow> c \<noteq> ''date_of_birth''
              \<longrightarrow> c \<noteq> ''sex'' \<longrightarrow>
              cell (body df ! i) c
                = (if isna (cell (body df0 ! i) c) \<or> cell (body df0 ! i) c = PyStr ''-4''
                   then PyStr ''n/a'' else cell (body df0 ! i) c)))"
proof -
  from normalize_participants_body[OF n] obtain ids where
    ids: "mapE (\<lambda>r. from_orig (cell r ''alternative_id_1'')) (body df0) = Inr ids"
    and b: "body df = map (\<lambda>ir. norm_row (cols df) (fst ir) (snd ir)) (zip ids (body df0))"
    and sx: "''sex'' \<in> set (cols df)"
    and cs: "cols df = ''participant_id'' # filter (\<lambda>x. x \<noteq> ''alternative_id_1'') (cols df0)"
    by blast
  have len: "length ids = length (body df0)" by (rule mapE_length[OF ids])
  then have l: "length (body df) = length (body df0)" using b by simp
  have nth: "body df ! i = norm_row (cols df) (ids ! i) (body df0 ! i)" if "i < length (body df)" for i
    using that l len b by simp
  have alt: "c \<noteq> ''alternative_id_1''" if "c \<in> set (cols df)" for c
    using that cs by auto
  have "cell (body df ! i) ''sex''
            = (if cell (body df0 ! i) ''sex'' = PyStr ''1'' then PyStr ''M''
               else if cell (body df0 ! i) ''sex'' = PyStr ''2'' then PyStr ''F''
               else PyStr ''n/a'')" if "i < length (body df)" for i
    using nth[OF that] cell_norm_row_sex[OF sx] by simp
  moreover have "cell (body df ! i) c
                = (if isna (cell (body df0 ! i) c) \<or> cell (body df0 ! i) c = PyStr ''-4''
                   then PyStr ''n/a'' else cell (body df0 ! i) c)"
    if "i < length (body df)" "c \<in> set (cols df)" "c \<noteq> ''participant_id''"
       "c \<noteq> ''date_of_birth''" "c \<noteq> ''sex''" for i c
    using nth[OF that(1)] cell_norm_row_other[OF that(2) that(5) that(4) alt[OF that(2)] that(3)]
    by simp
  ultimately show ?thesis using l by blast
qed



lemma missing_row_cells:
  assumes "s \<in> set (glob_sub entries)" "c \<in> set cs"
  shows "\<not> isna (cell (snd (missing_row cs s)) c) \<and> cell (snd (missing_row cs s)) c \<noteq> PyStr ''-4''
         \<and> cell (snd (missing_row cs s)) c \<noteq> PyStr []"
  using assms glob_sub_names[OF assms(1)]
  by (simp add: cell_missing_row isna_def)


lemma typed_num_nonempty:
  "\<forall>r \<in> set (body (typed_num nums hdr ls)). \<forall>c. cell r c \<noteq> PyStr []"
proof (intro ballI allI)
  fix r c assume "r \<in> set (body (typed_num nums hdr ls))"
  then obtain zs where r: "r = map (\<lambda>cf. (fst cf,
                                  if snd cf = [] then NaN
                                  else if fst cf \<in> set nums then
                                    (case py_int (snd cf) of
                                       Inl e \<Rightarrow> PyStr (snd cf)
                                     | Inr n \<Rightarrow> PyInt n)
                                  else PyStr (snd cf))) zs"
    by (auto simp: typed_num_def)
  show "cell r c \<noteq> PyStr []"
  proof (cases "map_of r c")
    case None
    then show ?thesis by (simp add: cell_def)
  next
    case (Some v)
    then have "(c, v) \<in> set r" by (rule map_of_SomeD)
    then have "v \<noteq> PyStr []" unfolding r by (auto split: sum.splits if_splits)
    with Some show ?thesis by (simp add: cell_def)
  qed
qed

lemma example_from_original_study_id_nonempty:
  "\<forall>v s. example_from_original_study_id v = Inr s \<longrightarrow> s \<noteq> []"
  by (auto simp: example_from_original_study_id_def split: pyval.splits)


section \<open>Properties of the diagnosis mapping\<close>

text \<open>
  C6. The session diagnosis mapping sends 1 to "CN", 2 to "MCI", 3 to "AD" and every
  other value to "n/a", among them 4, the missing-value code -4 (as a number and as a
  string) and a missing value; -4 and NaN are replaced by the absent marker
  \<^verbatim>\<open>None\<close> before the mapping is applied.
\<close>

theorem session_diagnosis_mapping:
  "session_diagnosis (PyInt 1) = PyStr ''CN''
   \<and> session_diagnosis (PyInt 2) = PyStr ''MCI''
   \<and> session_diagnosis (PyInt 3) = PyStr ''AD''
   \<and> session_diagnosis (PyInt 4) = PyStr ''n/a''
   \<and> session_diagnosis (PyInt (- 4)) = PyStr ''n/a''
   \<and> session_diagnosis (PyStr ''-4'') = PyStr ''n/a''
   \<and> session_diagnosis NaN = PyStr ''n/a''
   \<and> session_diagnosis PyNone = PyStr ''n/a''
   \<and> replace_missing (PyInt (- 4)) = PyNone
   \<and> replace_missing (PyStr ''-4'') = PyNone
   \<and> replace_missing NaN = PyNone
   \<and> (\<forall>v. v \<noteq> PyInt 1 \<and> v \<noteq> PyInt 2 \<and> v \<noteq> PyInt 3 \<longrightarrow> session_diagnosis v = PyStr ''n/a'')"
  by (simp add: session_diagnosis_def map_diagnosis_def replace_missing_def)

theorem session_diagnosis_mapping_witness:
  "PyInt 7 \<noteq> PyInt 1 \<and> PyInt 7 \<noteq> PyInt 2 \<and> PyInt 7 \<noteq> PyInt 3
   \<and> session_diagnosis (PyInt 7) = PyStr ''n/a''"
  using session_diagnosis_mapping by simp

section \<open>Properties of the flutemeta repair\<close>










section \<open>Properties of the scans dictionary\<close>

lemma mapE_map_of:
  assumes "\<And>x y. f x = Inr y \<Longrightarrow> fst y = fst x"
  shows "mapE f xs = Inr ys \<Longrightarrow> map_of xs k = Some a \<Longrightarrow>
         \<exists>b. f (k, a) = Inr (k, b) \<and> map_of ys k = Some b"
proof (induction xs arbitrary: ys)
  case Nil
  then show ?case by simp
next
  case (Cons x xs)
  from Cons.prems(1) obtain y ys' where y: "f x = Inr y" "mapE f xs = Inr ys'" "ys = y # ys'"
    by (auto split: sum.splits)
  have fy: "fst y = fst x" using assms y(1) by blast
  show ?case
  proof (cases "fst x = k")
    case True
    then have "x = (k, a)" using Cons.prems(2) by (cases x) auto
    then show ?thesis using y fy by (cases y) auto
  next
    case False
    then have "map_of xs k = Some a" using Cons.prems(2) by (cases x) auto
    from Cons.IH[OF y(2) this] obtain b where "f (k, a) = Inr (k, b)" "map_of ys' k = Some b"
      by blast
    then show ?thesis using y fy False by (cases y) auto
  qed
qed

lemma foldE_append:
  "foldE f (xs @ ys) s = (case foldE f xs s of Inl e \<Rightarrow> Inl e | Inr s' \<Rightarrow> foldE f ys s')"
  by (induction xs arbitrary: s) (auto split: sum.splits)

lemma write_slot_keeps:
  "map_of fs k = Some v \<Longrightarrow> v \<noteq> PyStr ''n/a'' \<Longrightarrow> map_of (write_slot k' v' fs) k = Some v"
  by (auto simp: write_slot_def update_conv')

lemma write_slot_writes:
  "map_of fs k = None \<or> map_of fs k = Some (PyStr ''n/a'') \<Longrightarrow>
   map_of (write_slot k v fs) k = Some v"
  by (auto simp: write_slot_def update_conv')

lemma session_step_fst: "session_step tb row oid sm = Inr sm' \<Longrightarrow> fst sm' = fst sm"
  by (auto simp: session_step_def split: sum.splits option.splits)

lemma session_step_keeps:
  assumes "session_step tb row oid (s, ms) = Inr (s, ms')"
    and "map_of ms m = Some fs" and "map_of fs k = Some v" and "v \<noteq> PyStr ''n/a''"
  shows "\<exists>fs'. map_of ms' m = Some fs' \<and> map_of fs' k = Some v"
  using assms
  by (auto simp: session_step_def update_conv' write_slot_keeps split: sum.splits option.splits)

lemma subject_step_fst: "subject_step to_orig tb row bs = Inr bs' \<Longrightarrow> fst bs' = fst bs"
  by (auto simp: subject_step_def split: sum.splits)

lemma subject_step_keeps:
  assumes "subject_step to_orig tb row (b, ss) = Inr (b, ss')"
    and "map_of ss s = Some ms" and "map_of ms m = Some fs" and "map_of fs k = Some v"
    and "v \<noteq> PyStr ''n/a''"
  shows "\<exists>ms' fs'. map_of ss' s = Some ms' \<and> map_of ms' m = Some fs' \<and> map_of fs' k = Some v"
proof -
  from assms(1) obtain oid where
    oid: "to_orig b = Inr oid" "mapE (session_step tb row oid) ss = Inr ss'"
    by (auto simp: subject_step_def split: sum.splits)
  have kp: "\<And>x y. session_step tb row oid x = Inr y \<Longrightarrow> fst y = fst x"
    by (rule session_step_fst)
  from mapE_map_of[OF kp oid(2) assms(2)]
  obtain ms' where "session_step tb row oid (s, ms) = Inr (s, ms')" "map_of ss' s = Some ms'"
    by blast
  with session_step_keeps[OF this(1) assms(3,4,5)] show ?thesis by blast
qed

lemma slot_Some_iff:
  "slot d b s m k = Some v \<longleftrightarrow>
   (\<exists>ss ms fs. map_of d b = Some ss \<and> map_of ss s = Some ms \<and> map_of ms m = Some fs
      \<and> map_of fs k = Some v)"
  by (auto simp: slot_def split: option.splits)

lemma scans_row_step_keeps:
  assumes "scans_row_step typed dir v2s to_orig d row = Inr d'"
    and "slot d b s m k = Some v" and "v \<noteq> PyStr ''n/a''"
  shows "slot d' b s m k = Some v"
proof -
  from assms(1) obtain tb where fl: "mapE (subject_step to_orig tb row) d = Inr d'"
    by (auto simp: scans_row_step_def split: sum.splits)
  have kp: "\<And>x y. subject_step to_orig tb row x = Inr y \<Longrightarrow> fst y = fst x"
    by (rule subject_step_fst)
  from assms(2) obtain ss ms fs where
    h: "map_of d b = Some ss" "map_of ss s = Some ms" "map_of ms m = Some fs"
       "map_of fs k = Some v"
    by (auto simp: slot_Some_iff)
  from mapE_map_of[OF kp fl h(1)]
  obtain ss' where
    ss': "subject_step to_orig tb row (b, ss) = Inr (b, ss')" "map_of d' b = Some ss'"
    by blast
  from subject_step_keeps[OF ss'(1) h(2,3,4) assms(3)] ss'(2)
  show ?thesis by (auto simp: slot_Some_iff)
qed

lemma scans_rows_keep:
  "foldE (scans_row_step typed dir v2s to_orig) rows d = Inr d' \<Longrightarrow>
   slot d b s m k = Some v \<Longrightarrow> v \<noteq> PyStr ''n/a'' \<Longrightarrow> slot d' b s m k = Some v"
proof (induction rows arbitrary: d)
  case Nil
  then show ?case by simp
next
  case (Cons r rows)
  from Cons.prems(1) obtain d1 where
    d1: "scans_row_step typed dir v2s to_orig d r = Inr d1"
        "foldE (scans_row_step typed dir v2s to_orig) rows d1 = Inr d'"
    by (auto split: sum.splits)
  from scans_row_step_keeps[OF d1(1) Cons.prems(2,3)] Cons.IH[OF d1(2)] Cons.prems(3)
  show ?case by blast
qed

lemma scans_row_step_writes:
  assumes "scans_row_step typed dir v2s to_orig d row = Inr d'"
    and "map_of d b = Some ss" and "map_of ss s = Some ms"
    and "map_of ms (modalities_related row) = Some fs"
    and "map_of fs (bids_clinica row) = None
         \<or> map_of fs (bids_clinica row) = Some (PyStr ''n/a'')"
  shows "\<exists>file0 tb oid vl.
           load_metadata_from_pattern typed dir (aibl_location row)
             (scans_on_bad_lines (aibl_location row)) = Inr file0
         \<and> add_session_id v2s file0 = Inr tb
         \<and> to_orig b = Inr oid \<and> scan_value tb row oid s = Inr vl
         \<and> slot d' b s (modalities_related row) (bids_clinica row) = Some vl"
proof -
  from assms(1) obtain file0 tb where fl:
    "load_metadata_from_pattern typed dir (aibl_location row)
       (scans_on_bad_lines (aibl_location row)) = Inr file0"
    "add_session_id v2s file0 = Inr tb"
    "mapE (subject_step to_orig tb row) d = Inr d'"
    by (auto simp: scans_row_step_def split: sum.splits)
  have kp: "\<And>x y. subject_step to_orig tb row x = Inr y \<Longrightarrow> fst y = fst x"
    by (rule subject_step_fst)
  from mapE_map_of[OF kp fl(3) assms(2)]
  obtain ss' where
    ss': "subject_step to_orig tb row (b, ss) = Inr (b, ss')" "map_of d' b = Some ss'"
    by blast
  from ss'(1) obtain oid where
    oid: "to_orig b = Inr oid" "mapE (session_step tb row oid) ss = Inr ss'"
    by (auto simp: subject_step_def split: sum.splits)
  have kp2: "\<And>x y. session_step tb row oid x = Inr y \<Longrightarrow> fst y = fst x"
    by (rule session_step_fst)
  from mapE_map_of[OF kp2 oid(2) assms(3)]
  obtain ms' where
    ms': "session_step tb row oid (s, ms) = Inr (s, ms')" "map_of ss' s = Some ms'"
    by blast
  from ms'(1) assms(4) obtain vl where v: "scan_value tb row oid s = Inr vl"
    "ms' = AList.update (modalities_related row) (write_slot (bids_clinica row) vl fs) ms"
    by (auto simp: session_step_def split: sum.splits option.splits)
  have "slot d' b s (modalities_related row) (bids_clinica row) = Some vl"
    using ss'(2) ms'(2) v(2) write_slot_writes[OF assms(5)]
    by (simp add: slot_def update_conv')
  with fl oid v show ?thesis by blast
qed

text \<open>
  C3. In the accumulation of \<^verbatim>\<open>_create_scans_dict\<close>, for every subject, session, modality
  group and field: once the mapping rows processed so far have left a value other than
  "n/a" in the slot, no later mapping row changes it, whatever the later row resolves
  to. A slot that is not present yet or holds "n/a" is written by the next mapping row
  that targets it, with the value this row resolves to.
\<close>

theorem scans_write_once:
  "(create_scans_dict typed dir v2s to_orig (rows1 @ rows2) bids_ids ses_list = Inr d' \<longrightarrow>
      (\<exists>d. create_scans_dict typed dir v2s to_orig rows1 bids_ids ses_list = Inr d
         \<and> (\<forall>b s m k v. slot d b s m k = Some v \<longrightarrow> v \<noteq> PyStr ''n/a''
               \<longrightarrow> slot d' b s m k = Some v)))
   \<and> (scans_row_step typed dir v2s to_orig d0 row = Inr d1 \<longrightarrow>
        map_of d0 b0 = Some ss \<longrightarrow> map_of ss s0 = Some ms \<longrightarrow>
        map_of ms (modalities_related row) = Some fs \<longrightarrow>
        (map_of fs (bids_clinica row) = None
           \<or> map_of fs (bids_clinica row) = Some (PyStr ''n/a'')) \<longrightarrow>
        (\<exists>file0 tb oid vl.
           load_metadata_from_pattern typed dir (aibl_location row)
             (scans_on_bad_lines (aibl_location row)) = Inr file0
         \<and> add_session_id v2s file0 = Inr tb
         \<and> to_orig b0 = Inr oid \<and> scan_value tb row oid s0 = Inr vl
         \<and> slot d1 b0 s0 (modalities_related row) (bids_clinica row) = Some vl))"
proof (intro conjI impI)
  assume a: "create_scans_dict typed dir v2s to_orig (rows1 @ rows2) bids_ids ses_list = Inr d'"
  then obtain d where
    d: "foldE (scans_row_step typed dir v2s to_orig) rows1 (init_scans_dict bids_ids ses_list)
          = Inr d"
       "foldE (scans_row_step typed dir v2s to_orig) rows2 d = Inr d'"
    by (auto simp: create_scans_dict_def foldE_append split: sum.splits)
  have "\<forall>b s m k v. slot d b s m k = Some v \<longrightarrow> v \<noteq> PyStr ''n/a''
          \<longrightarrow> slot d' b s m k = Some v"
    using scans_rows_keep[OF d(2)] by blast
  with d(1) show "\<exists>d. create_scans_dict typed dir v2s to_orig rows1 bids_ids ses_list = Inr d
         \<and> (\<forall>b s m k v. slot d b s m k = Some v \<longrightarrow> v \<noteq> PyStr ''n/a''
               \<longrightarrow> slot d' b s m k = Some v)"
    by (auto simp: create_scans_dict_def)
next
  assume "scans_row_step typed dir v2s to_orig d0 row = Inr d1"
    "map_of d0 b0 = Some ss" "map_of ss s0 = Some ms"
    "map_of ms (modalities_related row) = Some fs"
    "map_of fs (bids_clinica row) = None
       \<or> map_of fs (bids_clinica row) = Some (PyStr ''n/a'')"
  then show "\<exists>file0 tb oid vl.
           load_metadata_from_pattern typed dir (aibl_location row)
             (scans_on_bad_lines (aibl_location row)) = Inr file0
         \<and> add_session_id v2s file0 = Inr tb
         \<and> to_orig b0 = Inr oid \<and> scan_value tb row oid s0 = Inr vl
         \<and> slot d1 b0 s0 (modalities_related row) (bids_clinica row) = Some vl"
    by (rule scans_row_step_writes)
qed

theorem scans_write_once_witness:
  "create_scans_dict example_typed example_clinical_dir example_viscode_to_session
     example_to_original_study_id ([acq_time_row ''aibl_mrimeta_*.csv''] @ [acq_time_row ''aibl_mri3meta_*.csv''])
     example_bids_ids example_ses_list = Inr example_scans_result
   \<and> create_scans_dict example_typed example_clinical_dir example_viscode_to_session
     example_to_original_study_id [acq_time_row ''aibl_mrimeta_*.csv'']
     example_bids_ids example_ses_list = Inr example_scans_result
   \<and> slot example_scans_result ''sub-AIBL12'' ''ses-M000'' ''T1/DWI/fMRI/FMAP'' ''acq_time''
       = Some (PyStr ''2010-01-02T00:00:00'')
   \<and> scan_value example_mri3meta (acq_time_row ''aibl_mri3meta_*.csv'') ''12'' ''ses-M000''
       = Inr (PyStr ''2011-03-04T00:00:00'')
   \<and> scans_row_step example_typed example_clinical_dir example_viscode_to_session
        example_to_original_study_id (init_scans_dict example_bids_ids example_ses_list)
        (acq_time_row ''aibl_mrimeta_*.csv'') = Inr example_scans_result
   \<and> map_of (init_scans_dict example_bids_ids example_ses_list) ''sub-AIBL12''
        = Some [(''ses-M000'', empty_modalities)]
   \<and> map_of empty_modalities ''T1/DWI/fMRI/FMAP'' = Some []
   \<and> (\<exists>file0 tb oid vl.
         load_metadata_from_pattern example_typed example_clinical_dir ''aibl_mrimeta_*.csv''
           (scans_on_bad_lines ''aibl_mrimeta_*.csv'') = Inr file0
       \<and> add_session_id example_viscode_to_session file0 = Inr tb
       \<and> example_to_original_study_id ''sub-AIBL12'' = Inr oid
       \<and> scan_value tb (acq_time_row ''aibl_mrimeta_*.csv'') oid ''ses-M000'' = Inr vl
       \<and> slot example_scans_result ''sub-AIBL12'' ''ses-M000'' ''T1/DWI/fMRI/FMAP''
           ''acq_time'' = Some vl)"
proof -
  have h1: "create_scans_dict example_typed example_clinical_dir example_viscode_to_session
     example_to_original_study_id ([acq_time_row ''aibl_mrimeta_*.csv''] @ [acq_time_row ''aibl_mri3meta_*.csv''])
     example_bids_ids example_ses_list = Inr example_scans_result"
    by code_simp
  have h2: "create_scans_dict example_typed example_clinical_dir example_viscode_to_session
     example_to_original_study_id [acq_time_row ''aibl_mrimeta_*.csv'']
     example_bids_ids example_ses_list = Inr example_scans_result"
    by code_simp
  have h3: "slot example_scans_result ''sub-AIBL12'' ''ses-M000'' ''T1/DWI/fMRI/FMAP'' ''acq_time''
       = Some (PyStr ''2010-01-02T00:00:00'')"
    by code_simp
  have h4: "scan_value example_mri3meta (acq_time_row ''aibl_mri3meta_*.csv'') ''12'' ''ses-M000''
       = Inr (PyStr ''2011-03-04T00:00:00'')"
    by code_simp
  have h5: "scans_row_step example_typed example_clinical_dir example_viscode_to_session
        example_to_original_study_id (init_scans_dict example_bids_ids example_ses_list)
        (acq_time_row ''aibl_mrimeta_*.csv'') = Inr example_scans_result"
    by code_simp
  have h6: "map_of (init_scans_dict example_bids_ids example_ses_list) ''sub-AIBL12''
        = Some [(''ses-M000'', empty_modalities)]"
    by code_simp
  have h7: "map_of empty_modalities ''T1/DWI/fMRI/FMAP'' = Some []"
    by code_simp
  have r: "modalities_related (acq_time_row ''aibl_mrimeta_*.csv'') = ''T1/DWI/fMRI/FMAP''"
    "bids_clinica (acq_time_row ''aibl_mrimeta_*.csv'') = ''acq_time''"
    "aibl_location (acq_time_row ''aibl_mrimeta_*.csv'') = ''aibl_mrimeta_*.csv''"
    by (simp_all add: acq_time_row_def)
  have h8: "map_of [(''ses-M000'', empty_modalities)] ''ses-M000'' = Some empty_modalities"
    by simp
  from scans_write_once[of example_typed example_clinical_dir example_viscode_to_session
      example_to_original_study_id "[acq_time_row ''aibl_mrimeta_*.csv'']"
      "[acq_time_row ''aibl_mri3meta_*.csv'']" example_bids_ids example_ses_list
      example_scans_result "init_scans_dict example_bids_ids example_ses_list"
      "acq_time_row ''aibl_mrimeta_*.csv''" example_scans_result "''sub-AIBL12''"
      "[(''ses-M000'', empty_modalities)]" "''ses-M000''" empty_modalities "[]"]
  have "\<exists>file0 tb oid vl.
         load_metadata_from_pattern example_typed example_clinical_dir ''aibl_mrimeta_*.csv''
           (scans_on_bad_lines ''aibl_mrimeta_*.csv'') = Inr file0
       \<and> add_session_id example_viscode_to_session file0 = Inr tb
       \<and> example_to_original_study_id ''sub-AIBL12'' = Inr oid
       \<and> scan_value tb (acq_time_row ''aibl_mrimeta_*.csv'') oid ''ses-M000'' = Inr vl
       \<and> slot example_scans_result ''sub-AIBL12'' ''ses-M000'' ''T1/DWI/fMRI/FMAP''
           ''acq_time'' = Some vl"
    using h5 h6 h7 h8 r by simp
  with h1 h2 h3 h4 h5 h6 h7 show ?thesis by blast
qed


text \<open>
  C8, as stated, fails: a lookup that matches no source row does not always leave "n/a"
  in the slot. For subject 15 the first mapping row stores an acquisition time; the file
  of the second mapping row has no row for this subject and session, the lookup gives
  "n/a", and the slot keeps the time of the first row.
\<close>

theorem scans_lookup_slot_counterexample:
  "load_metadata_from_pattern example_typed example_clinical_dir ''aibl_mri3meta_*.csv''
       (scans_on_bad_lines ''aibl_mri3meta_*.csv'') = Inr (drop_column ''session_id'' example_mri3meta)
   \<and> add_session_id example_viscode_to_session (drop_column ''session_id'' example_mri3meta)
       = Inr example_mri3meta
   \<and> length (matching_rows example_mri3meta 15 ''ses-M000'') = 0
   \<and> scan_value example_mri3meta (acq_time_row ''aibl_mri3meta_*.csv'') ''15'' ''ses-M000''
       = Inr (PyStr ''n/a'')
   \<and> scans_row_step example_typed example_clinical_dir example_viscode_to_session
        example_to_original_study_id example_scans_result
        (acq_time_row ''aibl_mri3meta_*.csv'') = Inr example_scans_result
   \<and> slot example_scans_result ''sub-AIBL15'' ''ses-M000'' ''T1/DWI/fMRI/FMAP'' ''acq_time''
       = Some (PyStr ''2012-07-08T00:00:00'')"
  by code_simp

text \<open>
  C8, amended. When zero or more than one rows of the source file match the subject's
  original-study identifier and the session label, the lookup does not abort: the
  value error of \<^verbatim>\<open>item()\<close> is caught, the value of the lookup is "n/a", and the step
  for this subject and session returns normally, so the loops go on. The value is
  stored under the write policy of the dictionary: a slot that is absent or holds "n/a"
  receives "n/a", a slot that holds another value keeps it.
\<close>

theorem scans_lookup_not_unique:
  "''RID'' \<in> set (cols tb) \<longrightarrow> aibl row \<in> set (cols tb) \<longrightarrow> py_int original_id = Inr rid \<longrightarrow>
   length (matching_rows tb rid session) \<noteq> 1 \<longrightarrow>
     scan_value tb row original_id session = Inr (PyStr ''n/a'')
     \<and> (\<forall>ms fs. map_of ms (modalities_related row) = Some fs \<longrightarrow>
           session_step tb row original_id (session, ms)
             = Inr (session,
                    AList.update (modalities_related row)
                      (write_slot (bids_clinica row) (PyStr ''n/a'') fs) ms)
           \<and> map_of (write_slot (bids_clinica row) (PyStr ''n/a'') fs) (bids_clinica row)
               = (if map_of fs (bids_clinica row) = None then Some (PyStr ''n/a'')
                  else map_of fs (bids_clinica row)))"
proof (intro impI)
  assume a: "''RID'' \<in> set (cols tb)" "aibl row \<in> set (cols tb)" "py_int original_id = Inr rid"
    "length (matching_rows tb rid session) \<noteq> 1"
  have "item (map (\<lambda>r. cell r (aibl row)) (matching_rows tb rid session)) = Inl ValueError"
    using a(4) by (cases "matching_rows tb rid session" rule: list.exhaust)
      (auto simp: item_def split: list.splits)
  then have v: "scan_value tb row original_id session = Inr (PyStr ''n/a'')"
    using a(1,2,3) by (simp add: scan_value_def)
  show "scan_value tb row original_id session = Inr (PyStr ''n/a'')
     \<and> (\<forall>ms fs. map_of ms (modalities_related row) = Some fs \<longrightarrow>
           session_step tb row original_id (session, ms)
             = Inr (session,
                    AList.update (modalities_related row)
                      (write_slot (bids_clinica row) (PyStr ''n/a'') fs) ms)
           \<and> map_of (write_slot (bids_clinica row) (PyStr ''n/a'') fs) (bids_clinica row)
               = (if map_of fs (bids_clinica row) = None then Some (PyStr ''n/a'')
                  else map_of fs (bids_clinica row)))"
    using v by (auto simp: session_step_def write_slot_def update_conv')
qed

theorem scans_lookup_not_unique_witness:
  "''RID'' \<in> set (cols example_mri3meta)
   \<and> aibl (acq_time_row ''aibl_mri3meta_*.csv'') \<in> set (cols example_mri3meta)
   \<and> py_int ''13'' = Inr 13
   \<and> length (matching_rows example_mri3meta 13 ''ses-M000'') = 2
   \<and> scan_value example_mri3meta (acq_time_row ''aibl_mri3meta_*.csv'') ''13'' ''ses-M000''
       = Inr (PyStr ''n/a'')
   \<and> session_step example_mri3meta (acq_time_row ''aibl_mri3meta_*.csv'') ''13''
        (''ses-M000'', empty_modalities)
       = Inr (''ses-M000'',
              [(''T1/DWI/fMRI/FMAP'', [(''acq_time'', PyStr ''n/a'')]),
               (''11CPIB'', []), (''18FAV45'', []), (''18FFMM'', [])])"
proof -
  have h1: "''RID'' \<in> set (cols example_mri3meta)"
    and h2: "aibl (acq_time_row ''aibl_mri3meta_*.csv'') \<in> set (cols example_mri3meta)"
    and h3: "py_int ''13'' = Inr 13"
    and h4: "length (matching_rows example_mri3meta 13 ''ses-M000'') = 2"
    and h5: "map_of empty_modalities (modalities_related (acq_time_row ''aibl_mri3meta_*.csv''))
               = Some []"
    and h6: "AList.update (modalities_related (acq_time_row ''aibl_mri3meta_*.csv''))
               (write_slot (bids_clinica (acq_time_row ''aibl_mri3meta_*.csv'')) (PyStr ''n/a'') [])
               empty_modalities
             = [(''T1/DWI/fMRI/FMAP'', [(''acq_time'', PyStr ''n/a'')]),
                (''11CPIB'', []), (''18FAV45'', []), (''18FFMM'', [])]"
    by code_simp+
  from scans_lookup_not_unique[of example_mri3meta "acq_time_row ''aibl_mri3meta_*.csv''"
      "''13''" 13 "''ses-M000''"] h1 h2 h3 h4
  have c: "scan_value example_mri3meta (acq_time_row ''aibl_mri3meta_*.csv'') ''13'' ''ses-M000''
       = Inr (PyStr ''n/a'')"
    and d: "\<And>ms fs. map_of ms (modalities_related (acq_time_row ''aibl_mri3meta_*.csv'')) = Some fs \<Longrightarrow>
           session_step example_mri3meta (acq_time_row ''aibl_mri3meta_*.csv'') ''13'' (''ses-M000'', ms)
             = Inr (''ses-M000'',
                    AList.update (modalities_related (acq_time_row ''aibl_mri3meta_*.csv''))
                      (write_slot (bids_clinica (acq_time_row ''aibl_mri3meta_*.csv'')) (PyStr ''n/a'') fs) ms)"
    by simp_all
  from d[OF h5] h6 c h1 h2 h3 h4 show ?thesis by simp
qed

section \<open>The files the builders read\<close>














section \<open>Properties of the participants table\<close>

text \<open>
  C1. When \<^verbatim>\<open>create_participants_tsv_file\<close> runs with \<^verbatim>\<open>delete_non_bids_info\<close> enabled
  and returns, the set of \<^verbatim>\<open>participant_id\<close> values of the table it writes is exactly
  the set of the names of the \<^verbatim>\<open>sub-*\<close> entries of the BIDS folder. The names of a
  folder being distinct, the rows come in the enumeration order of the folder: for
  each subject in turn, the rows of the joined clinical table with this identifier if
  there are any, and otherwise one synthesized row with "n/a" in every column but the
  identifier; a warning is printed for exactly the subjects that get a synthesized
  row, and rows of the clinical table for other subjects are not in the output.
\<close>

theorem participants_match_bids_subjects:
  "create_participants_tsv_file typed dir specs from_orig bids_entries True
     = Inr (out, warnings, rd) \<longrightarrow>
   (\<exists>st df. assemble_participants typed dir specs = Inr st
      \<and> normalize_participants from_orig (participant_df st) = Inr df
      \<and> cols out = cols df
      \<and> set (map (\<lambda>r. cell r ''participant_id'') (body out)) = PyStr ` set (glob_sub bids_entries)
      \<and> (\<forall>s. \<forall>c \<in> set (cols df).
            cell (snd (missing_row (cols df) s)) c
              = (if c = ''participant_id'' then PyStr s else PyStr ''n/a''))
      \<and> (distinct bids_entries \<longrightarrow>
            remdups_adj (map (\<lambda>r. cell r ''participant_id'') (body out))
              = map PyStr (glob_sub bids_entries)
          \<and> body out
              = concat (map (\<lambda>s.
                   if PyStr s \<in> set (map (\<lambda>r. cell r ''participant_id'') (body df))
                   then filter (\<lambda>r. cell r ''participant_id'' = PyStr s) (body df)
                   else [snd (missing_row (cols df) s)]) (glob_sub bids_entries))
          \<and> warnings
              = map warning_for
                  (filter (\<lambda>s. PyStr s \<notin> set (map (\<lambda>r. cell r ''participant_id'') (body df)))
                     (glob_sub bids_entries))))"
  (is "?L \<longrightarrow> ?R")
proof
  assume a: "create_participants_tsv_file typed dir specs from_orig bids_entries True
     = Inr (out, warnings, rd)"
  then obtain st df where st: "assemble_participants typed dir specs = Inr st"
    and df: "normalize_participants from_orig (participant_df st) = Inr df"
    and rc: "reconcile_with_bids (glob_sub bids_entries) df = Inr (out, warnings)"
    by (auto simp: create_participants_tsv_file_def split: sum.splits)
  have pid: "''participant_id'' \<in> set (cols df)"
    using normalize_participants_cols[OF df] by simp
  from reconcile_with_bids_ok[OF pid, of "glob_sub bids_entries"] rc
  obtain kept where k: "out = \<lparr>cols = cols df, body = map snd kept\<rparr>"
    "\<forall>ir \<in> set kept. cell (snd ir) ''participant_id'' = fst ir"
    "set (map fst kept) = PyStr ` set (glob_sub bids_entries)"
    by auto
  have "map (\<lambda>r. cell r ''participant_id'') (body out) = map fst kept"
    using k(1,2) by (simp add: comp_def)
  then have s: "set (map (\<lambda>r. cell r ''participant_id'') (body out))
      = PyStr ` set (glob_sub bids_entries)"
    using k(3) by simp
  have c: "cols out = cols df" using k(1) by simp
  have m: "\<forall>s. \<forall>c \<in> set (cols df).
            cell (snd (missing_row (cols df) s)) c
              = (if c = ''participant_id'' then PyStr s else PyStr ''n/a'')"
    by (simp add: cell_missing_row)
  have d: "distinct bids_entries \<longrightarrow>
            remdups_adj (map (\<lambda>r. cell r ''participant_id'') (body out))
              = map PyStr (glob_sub bids_entries)
          \<and> body out
              = concat (map (\<lambda>s.
                   if PyStr s \<in> set (map (\<lambda>r. cell r ''participant_id'') (body df))
                   then filter (\<lambda>r. cell r ''participant_id'' = PyStr s) (body df)
                   else [snd (missing_row (cols df) s)]) (glob_sub bids_entries))
          \<and> warnings
              = map warning_for
                  (filter (\<lambda>s. PyStr s \<notin> set (map (\<lambda>r. cell r ''participant_id'') (body df)))
                     (glob_sub bids_entries))"
  proof
    assume "distinct bids_entries"
    then have dg: "distinct (glob_sub bids_entries)" by (simp add: glob_sub_def)
    from reconcile_with_bids_rows(2,3,4)[OF pid dg rc]
    show "remdups_adj (map (\<lambda>r. cell r ''participant_id'') (body out))
              = map PyStr (glob_sub bids_entries)
          \<and> body out
              = concat (map (\<lambda>s.
                   if PyStr s \<in> set (map (\<lambda>r. cell r ''participant_id'') (body df))
                   then filter (\<lambda>r. cell r ''participant_id'' = PyStr s) (body df)
                   else [snd (missing_row (cols df) s)]) (glob_sub bids_entries))
          \<and> warnings
              = map warning_for
                  (filter (\<lambda>s. PyStr s \<notin> set (map (\<lambda>r. cell r ''participant_id'') (body df)))
                     (glob_sub bids_entries))"
      by blast
  qed
  from st df c s m d show ?R
    by blast
qed

theorem participants_match_bids_subjects_witness:
  "create_participants_tsv_file example_typed example_clinical_dir example_participant_specs
        example_from_original_study_id example_bids_entries True
     = Inr (\<lparr>cols = [''participant_id'', ''first_exam'', ''sex'', ''date_of_birth''],
             body =
               [[(''participant_id'', PyStr ''sub-AIBL13''), (''first_exam'', PyStr ''n/a''),
                 (''sex'', PyStr ''n/a''), (''date_of_birth'', PyStr ''n/a'')],
                [(''participant_id'', PyStr ''sub-AIBL12''),
                 (''first_exam'', PyStr ''06/15/2010''), (''sex'', PyStr ''M''),
                 (''date_of_birth'', PyStr ''1950'')]]\<rparr>,
            [''No clinical data was found for participant sub-AIBL13.''],
            [''aibl_ptdemog_*.csv'', ''aibl_neurobat_*.csv'', ''aibl_ptdemog_*.csv''])
   \<and> distinct example_bids_entries
   \<and> glob_sub example_bids_entries = [''sub-AIBL13'', ''sub-AIBL12'']
   \<and> set (map (\<lambda>r. cell r ''participant_id'')
             [[(''participant_id'', PyStr ''sub-AIBL13''), (''first_exam'', PyStr ''n/a''),
               (''sex'', PyStr ''n/a''), (''date_of_birth'', PyStr ''n/a'')],
              [(''participant_id'', PyStr ''sub-AIBL12''),
               (''first_exam'', PyStr ''06/15/2010''), (''sex'', PyStr ''M''),
               (''date_of_birth'', PyStr ''1950'')]])
       = PyStr ` set (glob_sub example_bids_entries)
   \<and> remdups_adj (map (\<lambda>r. cell r ''participant_id'')
             [[(''participant_id'', PyStr ''sub-AIBL13''), (''first_exam'', PyStr ''n/a''),
               (''sex'', PyStr ''n/a''), (''date_of_birth'', PyStr ''n/a'')],
              [(''participant_id'', PyStr ''sub-AIBL12''),
               (''first_exam'', PyStr ''06/15/2010''), (''sex'', PyStr ''M''),
               (''date_of_birth'', PyStr ''1950'')]])
       = map PyStr (glob_sub example_bids_entries)"
proof -
  let ?rows = "[[(''participant_id'', PyStr ''sub-AIBL13''), (''first_exam'', PyStr ''n/a''),
                 (''sex'', PyStr ''n/a''), (''date_of_birth'', PyStr ''n/a'')],
                [(''participant_id'', PyStr ''sub-AIBL12''),
                 (''first_exam'', PyStr ''06/15/2010''), (''sex'', PyStr ''M''),
                 (''date_of_birth'', PyStr ''1950'')]]"
  let ?out = "\<lparr>cols = [''participant_id'', ''first_exam'', ''sex'', ''date_of_birth''],
             body = ?rows\<rparr>"
  have p: "create_participants_tsv_file example_typed example_clinical_dir
        example_participant_specs example_from_original_study_id example_bids_entries True
     = Inr (?out,
            [''No clinical data was found for participant sub-AIBL13.''],
            [''aibl_ptdemog_*.csv'', ''aibl_neurobat_*.csv'', ''aibl_ptdemog_*.csv''])"
    by code_simp
  have d: "distinct example_bids_entries"
    by code_simp
  have g: "glob_sub example_bids_entries = [''sub-AIBL13'', ''sub-AIBL12'']"
    by code_simp
  have b: "body ?out = ?rows"
    by simp
  note t = participants_match_bids_subjects[of example_typed example_clinical_dir
      example_participant_specs example_from_original_study_id example_bids_entries ?out
      "[''No clinical data was found for participant sub-AIBL13.'']"
      "[''aibl_ptdemog_*.csv'', ''aibl_neurobat_*.csv'', ''aibl_ptdemog_*.csv'']"]
  from t p d
  have "set (map (\<lambda>r. cell r ''participant_id'') (body ?out))
          = PyStr ` set (glob_sub example_bids_entries)"
    and "remdups_adj (map (\<lambda>r. cell r ''participant_id'') (body ?out))
          = map PyStr (glob_sub example_bids_entries)"
    by blast+
  then have "set (map (\<lambda>r. cell r ''participant_id'') ?rows)
          = PyStr ` set (glob_sub example_bids_entries)"
    and "remdups_adj (map (\<lambda>r. cell r ''participant_id'') ?rows)
          = map PyStr (glob_sub example_bids_entries)"
    unfolding b by this+
  with p d g show ?thesis by blast
qed

text \<open>
  C7. In the table \<^verbatim>\<open>create_participants_tsv_file\<close> writes, with or without the
  reconciliation against the BIDS folder, no cell of a column is missing (NA) and no
  cell holds the study's missing-value code "-4"; no cell is the empty string either,
  given that the reader yields no empty-string cell (it reads an empty field as NA) and
  that no identifier is empty. Row by row of the assembled frame, the sex cell is "M"
  for "1", "F" for "2" and "n/a" for every other value, and a cell of any other copied
  column is "n/a" when it was NA or "-4" and is unchanged otherwise. With the
  reconciliation, every row written is such a row or a synthesized row of "n/a".
\<close>

theorem participants_cells_normalized:
  "create_participants_tsv_file typed dir specs from_orig bids_entries flag
     = Inr (out, warnings, rd) \<longrightarrow>
   (\<forall>r \<in> set (body out). \<forall>c \<in> set (cols out).
       \<not> isna (cell r c) \<and> cell r c \<noteq> PyStr ''-4'')
   \<and> ((\<forall>hdr ls. \<forall>r \<in> set (body (typed hdr ls)). \<forall>c. cell r c \<noteq> PyStr [])
        \<and> (\<forall>v s. from_orig v = Inr s \<longrightarrow> s \<noteq> [])
        \<longrightarrow> (\<forall>r \<in> set (body out). \<forall>c \<in> set (cols out). cell r c \<noteq> PyStr []))
   \<and> (\<exists>st df. assemble_participants typed dir specs = Inr st
        \<and> normalize_participants from_orig (participant_df st) = Inr df
        \<and> length (body df) = length (body (participant_df st))
        \<and> (\<forall>i < length (body df).
              cell (body df ! i) ''sex''
                = (if cell (body (participant_df st) ! i) ''sex'' = PyStr ''1'' then PyStr ''M''
                   else if cell (body (participant_df st) ! i) ''sex'' = PyStr ''2''
                   then PyStr ''F'' else PyStr ''n/a'')
            \<and> (\<forall>c \<in> set (cols df). c \<noteq> ''participant_id'' \<longrightarrow> c \<noteq> ''date_of_birth''
                  \<longrightarrow> c \<noteq> ''sex'' \<longrightarrow>
                  cell (body df ! i) c
                    = (if isna (cell (body (participant_df st) ! i) c)
                          \<or> cell (body (participant_df st) ! i) c = PyStr ''-4''
                       then PyStr ''n/a'' else cell (body (participant_df st) ! i) c)))
        \<and> cols out = cols df
        \<and> (if flag
            then set (body out)
                   \<subseteq> set (body df)
                     \<union> (\<lambda>s. snd (missing_row (cols df) s)) ` set (glob_sub bids_entries)
            else out = df))"
  (is "?L \<longrightarrow> ?A \<and> ?B \<and> ?C")
proof
  assume a: ?L
  then obtain st df where st: "assemble_participants typed dir specs = Inr st"
    and df: "normalize_participants from_orig (participant_df st) = Inr df"
    and o: "if flag then reconcile_with_bids (glob_sub bids_entries) df = Inr (out, warnings)
            else out = df"
    by (auto simp: create_participants_tsv_file_def split: sum.splits if_splits)
  have co: "cols out = cols df"
    and sub: "set (body out)
                \<subseteq> set (body df)
                  \<union> (\<lambda>s. snd (missing_row (cols df) s)) ` set (glob_sub bids_entries)"
    using o reconcile_with_bids_set[of "glob_sub bids_entries" df out warnings]
    by (auto split: if_splits)
  have A: ?A
  proof (intro ballI)
    fix r c assume r: "r \<in> set (body out)" and c: "c \<in> set (cols out)"
    from r sub consider "r \<in> set (body df)"
      | s where "s \<in> set (glob_sub bids_entries)" "r = snd (missing_row (cols df) s)"
      by blast
    then show "\<not> isna (cell r c) \<and> cell r c \<noteq> PyStr ''-4''"
    proof cases
      case 1
      with normalize_participants_cells[OF df] c co show ?thesis by simp
    next
      case 2
      with missing_row_cells[OF 2(1), of c "cols df"] c co show ?thesis by simp
    qed
  qed
  have B: ?B
  proof (intro impI ballI)
    fix r c
    assume h: "(\<forall>hdr ls. \<forall>r \<in> set (body (typed hdr ls)). \<forall>c. cell r c \<noteq> PyStr [])
        \<and> (\<forall>v s. from_orig v = Inr s \<longrightarrow> s \<noteq> [])"
      and r: "r \<in> set (body out)" and c: "c \<in> set (cols out)"
    from h have h1: "\<forall>hdr ls. \<forall>r \<in> set (body (typed hdr ls)). \<forall>c. cell r c \<noteq> PyStr []"
      and h2: "\<forall>v s. from_orig v = Inr s \<longrightarrow> s \<noteq> []" by blast+
    note ne = normalize_participants_nonempty[OF df assemble_participants_nonempty[OF h1 st] h2]
    from r sub consider "r \<in> set (body df)"
      | s where "s \<in> set (glob_sub bids_entries)" "r = snd (missing_row (cols df) s)"
      by blast
    then show "cell r c \<noteq> PyStr []"
    proof cases
      case 1
      with ne c co show ?thesis by simp
    next
      case 2
      with missing_row_cells[OF 2(1), of c "cols df"] c co show ?thesis by simp
    qed
  qed
  have "if flag
        then set (body out)
               \<subseteq> set (body df)
                 \<union> (\<lambda>s. snd (missing_row (cols df) s)) ` set (glob_sub bids_entries)
        else out = df"
    using o sub by (simp split: if_splits)
  with st df co normalize_participants_rows[OF df] have C: ?C by blast
  from A B C show "?A \<and> ?B \<and> ?C" by blast
qed


end
